theory Spec2Isabelle
  imports Main
begin

section \<open>Data model\<close>

text \<open>
  The rental engine of the repository is the rental controller (\<^verbatim>\<open>createRental\<close>,
  \<^verbatim>\<open>updateRental\<close>, \<^verbatim>\<open>deleteRental\<close>), the Mongoose schema \<^verbatim>\<open>models/Rental.js\<close> with
  its two hooks, and the route table that puts \<^verbatim>\<open>rentalValidation\<close> in front of POST
  and PUT.

  Conventions of the embedding:
  \<^item> An ObjectId is a natural number. Strings that are not ObjectIds are outside the
    input type (\<^verbatim>\<open>isValidObjectId\<close> is then true of every id that is present); a
    field that is missing from the request body is \<open>None\<close>.
  \<^item> A JavaScript \<^verbatim>\<open>Date\<close> is its time value: milliseconds since the epoch, an
    \<open>int\<close>. \<^verbatim>\<open>Invalid Date\<close> (time value NaN) is \<open>None\<close> of \<open>int option\<close>.
  \<^item> An id that is present is a non-empty string and so is truthy; the dates of the
    request body keep the JavaScript values whose truthiness the handlers test.
  \<^item> \<^verbatim>\<open>totalCost\<close> is an \<open>int\<close>; NaN is outside the input type.
  \<^item> The controllers report an error by \<^verbatim>\<open>return next(error)\<close>; the model returns
    \<open>Inl\<close> of the error and no new database, so a failed request writes nothing.
\<close>

datatype rental_status = Active | Completed | Cancelled

datatype car_status = Available | Maintenance

record rental =
  rid :: nat
  car :: nat
  client :: nat
  employee :: nat
  startDate :: int
  endDate :: int
  totalCost :: int
  status :: rental_status

record car_doc =
  car_id :: nat
  car_status :: car_status

record db =
  cars :: "car_doc list"
  rentals :: "rental list"

text \<open>
  A date as it stands in \<^verbatim>\<open>req.body\<close> when a handler reads it:
  \<^item> \<open>DateObject t\<close>: a \<^verbatim>\<open>Date\<close> object with time value \<open>t\<close> (\<open>None\<close> for
    \<^verbatim>\<open>Invalid Date\<close>), which is what \<^verbatim>\<open>toDate()\<close> of the validation middleware leaves;
  \<^item> \<open>DateString p\<close>: a non-empty string, with the time value \<open>p\<close> that \<^verbatim>\<open>Date\<close> parses
    it to (\<open>None\<close> when it cannot); a string of digits that Mongoose would cast as a
    number of milliseconds is outside the input type;
  \<^item> \<open>NumberValue n\<close>: the number \<open>n\<close>, a time value in milliseconds;
  \<^item> \<open>EmptyString\<close> and \<open>NullValue\<close>: the empty string and \<^verbatim>\<open>null\<close>.
  A field that is \<^verbatim>\<open>undefined\<close> is \<open>None\<close>. Other JavaScript values (booleans, arrays,
  objects) are outside the input type.
\<close>

datatype date_input =
    DateObject "int option"
  | DateString "int option"
  | NumberValue int
  | EmptyString
  | NullValue

record body =
  req_car :: "nat option"
  req_client :: "nat option"
  req_employee :: "nat option"
  req_startDate :: "date_input option"
  req_endDate :: "date_input option"
  req_totalCost :: "int option"
  req_status :: "rental_status option"

text \<open>
  What the handler reads from the server besides the database: the wall clock
  (\<^verbatim>\<open>new Date()\<close>) and the offset of the server's local time from UTC, both in
  milliseconds. The offset is fixed (no daylight-saving change is modelled).
\<close>

record env =
  now :: int
  tzOffset :: int

text \<open>
  One constructor for each error of the controller, the schema and the validation
  middleware. A start date in the past has one message in \<^verbatim>\<open>createRental\<close> and another
  in \<^verbatim>\<open>updateRental\<close> (\<open>StartDateInPastActive\<close>); the error of the schema's hooks
  (\<open>HookEndNotAfterStart\<close>) has the message of \<open>EndNotAfterStart\<close> and no status code.
  In the taxonomy of the specification, \<open>InvalidDateFormat\<close>,
  \<open>StartDateInPast\<close>, \<open>StartDateInPastActive\<close> and \<open>EndNotAfterStart\<close> are
  \<^emph>\<open>InvalidInterval\<close>, \<open>CarAlreadyBooked\<close> is \<^emph>\<open>Conflict\<close>, \<open>CarInMaintenance\<close> is
  \<^emph>\<open>ResourceUnavailable\<close>, and \<open>RentalNotFound\<close> and \<open>CarNotFound\<close> are \<^emph>\<open>NotFound\<close>.
\<close>

datatype error =
    RentalNotFound
  | InvalidCarID
  | InvalidClientID
  | InvalidEmployeeID
  | TotalCostNotPositive
  | InvalidDateFormat
  | StartDateInPast
  | StartDateInPastActive
  | EndNotAfterStart
  | CarNotFound
  | CarInMaintenance
  | CarAlreadyBooked
  | ValidationFailed
  | TotalCostRequired
  | HookEndNotAfterStart
  | RequestValidationFailed

section \<open>Dates\<close>

definition msPerDay :: int where
  "msPerDay = 86400000"

text \<open>
  The truthiness of a date of the body, as \<^verbatim>\<open>if (startDate || endDate)\<close> and
  \<^verbatim>\<open>startDate || oldRental.startDate\<close> test it: \<^verbatim>\<open>undefined\<close>, \<^verbatim>\<open>null\<close>, the empty
  string and the number 0 are falsy; every object and every non-empty string is
  truthy.
\<close>

fun truthy :: "date_input option \<Rightarrow> bool" where
  "truthy None = False"
| "truthy (Some (DateObject t)) = True"
| "truthy (Some (DateString p)) = True"
| "truthy (Some (NumberValue n)) = (n \<noteq> 0)"
| "truthy (Some EmptyString) = False"
| "truthy (Some NullValue) = False"

text \<open>
  \<^verbatim>\<open>new Date(value)\<close>: \<^verbatim>\<open>new Date(undefined)\<close> and \<^verbatim>\<open>new Date('')\<close> are
  \<^verbatim>\<open>Invalid Date\<close>, \<^verbatim>\<open>new Date(null)\<close> is the epoch.
\<close>

fun new_Date :: "date_input option \<Rightarrow> int option" where
  "new_Date None = None"
| "new_Date (Some (DateObject t)) = t"
| "new_Date (Some (DateString p)) = p"
| "new_Date (Some (NumberValue n)) = Some n"
| "new_Date (Some EmptyString) = None"
| "new_Date (Some NullValue) = Some 0"

text \<open>
  The \<^verbatim>\<open>Date\<close> that the schema stores for a value of a path of type \<^verbatim>\<open>Date\<close> that is
  \<^verbatim>\<open>required\<close>. Mongoose casts \<^verbatim>\<open>null\<close> and the empty string to \<^verbatim>\<open>null\<close>, which the
  \<^verbatim>\<open>required\<close> validator refuses, and refuses to cast what is no valid date; both
  are \<open>None\<close> here. A number is cast to the date with that time value.
\<close>

fun schema_date :: "date_input \<Rightarrow> int option" where
  "schema_date (DateObject t) = t"
| "schema_date (DateString p) = p"
| "schema_date (NumberValue n) = Some n"
| "schema_date EmptyString = None"
| "schema_date NullValue = None"

text \<open>
  \<^verbatim>\<open>new Date(d.getFullYear(), d.getMonth(), d.getDate())\<close>: local midnight of the
  local calendar day of \<open>d\<close>.
\<close>

definition dateOnly :: "env \<Rightarrow> int \<Rightarrow> int" where
  "dateOnly ev t = ((t + tzOffset ev) div msPerDay) * msPerDay - tzOffset ev"

definition today :: "env \<Rightarrow> int" where
  "today ev = dateOnly ev (now ev)"

section \<open>The collections\<close>

fun Car_findById :: "car_doc list \<Rightarrow> nat \<Rightarrow> car_doc option" where
  "Car_findById [] i = None"
| "Car_findById (c # cs) i = (if car_id c = i then Some c else Car_findById cs i)"

fun Rental_findById :: "rental list \<Rightarrow> nat \<Rightarrow> rental option" where
  "Rental_findById [] i = None"
| "Rental_findById (r # rs) i = (if rid r = i then Some r else Rental_findById rs i)"

text \<open>
  The \<^verbatim>\<open>$or\<close> of both conflict queries, on one stored rental:
  \<^verbatim>\<open>
  { startDate: { $lte: start }, endDate: { $gte: start } },
  { startDate: { $lte: end },   endDate: { $gte: end } },
  { startDate: { $gte: start }, endDate: { $lte: end } }
  \<close>
\<close>

definition or_clauses :: "int \<Rightarrow> int \<Rightarrow> rental \<Rightarrow> bool" where
  "or_clauses start endD r \<longleftrightarrow>
     (startDate r \<le> start \<and> endDate r \<ge> start) \<or>
     (startDate r \<le> endD \<and> endDate r \<ge> endD) \<or>
     (startDate r \<ge> start \<and> endDate r \<le> endD)"

text \<open>The query of \<^verbatim>\<open>createRental\<close>: \<^verbatim>\<open>{ car: carId, status: 'active', $or: [...] }\<close>.\<close>

definition overlappingRentals :: "rental list \<Rightarrow> nat \<Rightarrow> int \<Rightarrow> int \<Rightarrow> rental list" where
  "overlappingRentals rs carId start endD =
     filter (\<lambda>r. car r = carId \<and> status r = Active \<and> or_clauses start endD r) rs"

text \<open>
  The query of \<^verbatim>\<open>updateRental\<close>, which adds \<^verbatim>\<open>_id: { $ne: req.params.id }\<close>.
\<close>

definition overlappingRentalsExcept ::
  "rental list \<Rightarrow> nat \<Rightarrow> nat \<Rightarrow> int \<Rightarrow> int \<Rightarrow> rental list" where
  "overlappingRentalsExcept rs i targetCarId start endD =
     filter (\<lambda>r. rid r \<noteq> i \<and> car r = targetCarId \<and> status r = Active \<and>
                 or_clauses start endD r) rs"

text \<open>
  The \<^verbatim>\<open>_id\<close> the driver gives a new document: any id no stored rental has. The model
  takes the successor of the largest one.
\<close>

definition new_ObjectId :: "rental list \<Rightarrow> nat" where
  "new_ObjectId rs = Suc (fold max (map rid rs) 0)"

text \<open>
  \<^verbatim>\<open>Rental.create(req.body)\<close>: the schema's \<^verbatim>\<open>required\<close> fields and the cast of
  the dates, \<^verbatim>\<open>min: 0\<close> on \<^verbatim>\<open>totalCost\<close>, the default \<^verbatim>\<open>'active'\<close> of \<^verbatim>\<open>status\<close>, the
  \<^verbatim>\<open>pre('save')\<close> hook (\<^verbatim>\<open>endDate <= startDate\<close> is an error), then the insert.
\<close>

definition Rental_create :: "db \<Rightarrow> body \<Rightarrow> error + db" where
  "Rental_create d b =
     (case (req_car b, req_client b, req_employee b,
            Option.bind (req_startDate b) schema_date,
            Option.bind (req_endDate b) schema_date) of
        (Some carId, Some clientId, Some employeeId, Some start, Some endD) \<Rightarrow>
          (case req_totalCost b of
             None \<Rightarrow> Inl TotalCostRequired
           | Some cost \<Rightarrow>
               if cost < 0 then Inl ValidationFailed
               else if endD \<le> start then Inl HookEndNotAfterStart
               else Inr (d\<lparr>rentals := rentals d @
                      [\<lparr>rid = new_ObjectId (rentals d), car = carId, client = clientId,
                        employee = employeeId, startDate = start, endDate = endD,
                        totalCost = cost,
                        status = (case req_status b of None \<Rightarrow> Active | Some s \<Rightarrow> s)\<rparr>]\<rparr>))
      | _ \<Rightarrow> Inl ValidationFailed)"

section \<open>createRental\<close>

text \<open>
  The handler up to its last read, \<^verbatim>\<open>await Rental.find(...)\<close>: every check in the
  order of the source. \<open>Inr ()\<close> means that the handler goes on to
  \<^verbatim>\<open>await Rental.create(req.body)\<close>.
\<close>

definition createRental_checks :: "env \<Rightarrow> db \<Rightarrow> body \<Rightarrow> error + unit" where
  "createRental_checks ev d b =
     (case req_car b of
        None \<Rightarrow> Inl InvalidCarID
      | Some carId \<Rightarrow>
     (case req_client b of
        None \<Rightarrow> Inl InvalidClientID
      | Some clientId \<Rightarrow>
     (case req_employee b of
        None \<Rightarrow> Inl InvalidEmployeeID
      | Some employeeId \<Rightarrow>
     (if (case req_totalCost b of None \<Rightarrow> False | Some cost \<Rightarrow> cost < 0)
      then Inl TotalCostNotPositive
      else
        (case (new_Date (req_startDate b), new_Date (req_endDate b)) of
           (Some start, Some endD) \<Rightarrow>
             (if dateOnly ev start < today ev then Inl StartDateInPast
              else if endD \<le> start then Inl EndNotAfterStart
              else
                (case Car_findById (cars d) carId of
                   None \<Rightarrow> Inl CarNotFound
                 | Some c \<Rightarrow>
                     (if car_status c = Maintenance then Inl CarInMaintenance
                      else if overlappingRentals (rentals d) carId start endD \<noteq> []
                      then Inl CarAlreadyBooked
                      else Inr ())))
         | _ \<Rightarrow> Inl InvalidDateFormat)))))"

text \<open>One request served with no other request in between.\<close>

definition createRental :: "env \<Rightarrow> db \<Rightarrow> body \<Rightarrow> error + db" where
  "createRental ev d b =
     (case createRental_checks ev d b of
        Inl e \<Rightarrow> Inl e
      | Inr _ \<Rightarrow> Rental_create d b)"

section \<open>updateRental\<close>

text \<open>
  \<^verbatim>\<open>new Date(startDate || oldRental.startDate)\<close>: the date of the body when it is
  truthy, the stored date otherwise.
\<close>

definition date_or :: "date_input option \<Rightarrow> int \<Rightarrow> int option" where
  "date_or v fallback = (if truthy v then new_Date v else Some fallback)"

text \<open>\<^verbatim>\<open>const targetCarId = carId || oldRental.car\<close>.\<close>

definition targetCarId :: "body \<Rightarrow> rental \<Rightarrow> nat" where
  "targetCarId b oldRental = (case req_car b of None \<Rightarrow> car oldRental | Some carId \<Rightarrow> carId)"

text \<open>
  The block under \<^verbatim>\<open>if (startDate || endDate)\<close>, with the checks in the order of the
  source; \<open>None\<close> means that no check of the block stopped the request.
\<close>

definition updateRental_dates :: "env \<Rightarrow> db \<Rightarrow> nat \<Rightarrow> rental \<Rightarrow> body \<Rightarrow> error option" where
  "updateRental_dates ev d i oldRental b =
     (if \<not> (truthy (req_startDate b) \<or> truthy (req_endDate b)) then None
      else
        (case (date_or (req_startDate b) (startDate oldRental),
               date_or (req_endDate b) (endDate oldRental)) of
           (Some start, Some endD) \<Rightarrow>
             (if status oldRental = Active \<and> dateOnly ev start < today ev
              then Some StartDateInPastActive
              else if endD \<le> start then Some EndNotAfterStart
              else if overlappingRentalsExcept (rentals d) i (targetCarId b oldRental)
                        start endD \<noteq> []
              then Some CarAlreadyBooked
              else None)
         | _ \<Rightarrow> Some InvalidDateFormat))"

text \<open>
  The block under \<^verbatim>\<open>if (carId && carId !== oldRental.car.toString())\<close>.
\<close>

definition updateRental_car :: "db \<Rightarrow> rental \<Rightarrow> body \<Rightarrow> error option" where
  "updateRental_car d oldRental b =
     (case req_car b of
        None \<Rightarrow> None
      | Some carId \<Rightarrow>
          (if carId = car oldRental then None
           else
             (case Car_findById (cars d) carId of
                None \<Rightarrow> Some CarNotFound
              | Some c \<Rightarrow> (if car_status c = Maintenance then Some CarInMaintenance else None))))"

text \<open>
  The fields of the body that are present replace those of the document; a date is
  stored as the schema casts it.
\<close>

definition set_fields :: "body \<Rightarrow> rental \<Rightarrow> rental" where
  "set_fields b r =
     r\<lparr>car := (case req_car b of None \<Rightarrow> car r | Some x \<Rightarrow> x),
       client := (case req_client b of None \<Rightarrow> client r | Some x \<Rightarrow> x),
       employee := (case req_employee b of None \<Rightarrow> employee r | Some x \<Rightarrow> x),
       startDate := (case Option.bind (req_startDate b) schema_date of
                       None \<Rightarrow> startDate r | Some x \<Rightarrow> x),
       endDate := (case Option.bind (req_endDate b) schema_date of
                     None \<Rightarrow> endDate r | Some x \<Rightarrow> x),
       totalCost := (case req_totalCost b of None \<Rightarrow> totalCost r | Some x \<Rightarrow> x),
       status := (case req_status b of None \<Rightarrow> status r | Some x \<Rightarrow> x)\<rparr>"

fun update_first :: "nat \<Rightarrow> (rental \<Rightarrow> rental) \<Rightarrow> rental list \<Rightarrow> rental list" where
  "update_first i f [] = []"
| "update_first i f (r # rs) = (if rid r = i then f r # rs else r # update_first i f rs)"

text \<open>
  \<^verbatim>\<open>Rental.findByIdAndUpdate(id, req.body, { new: true, runValidators: true })\<close>: the
  schema's update hook (under \<^verbatim>\<open>if (data.startDate && data.endDate)\<close>,
  \<^verbatim>\<open>new Date(data.endDate) <= new Date(data.startDate)\<close> is an error; a comparison
  with \<^verbatim>\<open>Invalid Date\<close> is false), the cast and the \<^verbatim>\<open>required\<close> validator of each date
  that is present, the validator \<^verbatim>\<open>min: 0\<close> of \<^verbatim>\<open>totalCost\<close>, then the write to the
  document with that id.
\<close>

definition Rental_findByIdAndUpdate :: "rental list \<Rightarrow> nat \<Rightarrow> body \<Rightarrow> error + rental list" where
  "Rental_findByIdAndUpdate rs i b =
     (if truthy (req_startDate b) \<and> truthy (req_endDate b) \<and>
         (case (new_Date (req_startDate b), new_Date (req_endDate b)) of
            (Some start, Some endD) \<Rightarrow> endD \<le> start
          | _ \<Rightarrow> False)
      then Inl HookEndNotAfterStart
      else if (case req_startDate b of None \<Rightarrow> False | Some v \<Rightarrow> schema_date v = None) \<or>
              (case req_endDate b of None \<Rightarrow> False | Some v \<Rightarrow> schema_date v = None)
      then Inl ValidationFailed
      else if (case req_totalCost b of None \<Rightarrow> False | Some cost \<Rightarrow> cost < 0)
      then Inl ValidationFailed
      else Inr (update_first i (set_fields b) rs))"

definition updateRental :: "env \<Rightarrow> db \<Rightarrow> nat \<Rightarrow> body \<Rightarrow> error + db" where
  "updateRental ev d i b =
     (case Rental_findById (rentals d) i of
        None \<Rightarrow> Inl RentalNotFound
      | Some oldRental \<Rightarrow>
          (case updateRental_dates ev d i oldRental b of
             Some e \<Rightarrow> Inl e
           | None \<Rightarrow>
               (if (case req_totalCost b of None \<Rightarrow> False | Some cost \<Rightarrow> cost < 0)
                then Inl TotalCostNotPositive
                else
                  (case updateRental_car d oldRental b of
                     Some e \<Rightarrow> Inl e
                   | None \<Rightarrow>
                       (case Rental_findByIdAndUpdate (rentals d) i b of
                          Inl e \<Rightarrow> Inl e
                        | Inr rs \<Rightarrow> Inr (d\<lparr>rentals := rs\<rparr>))))))"

section \<open>deleteRental\<close>

fun delete_first :: "nat \<Rightarrow> rental list \<Rightarrow> rental list" where
  "delete_first i [] = []"
| "delete_first i (r # rs) = (if rid r = i then rs else r # delete_first i rs)"

definition deleteRental :: "db \<Rightarrow> nat \<Rightarrow> error + db" where
  "deleteRental d i =
     (case Rental_findById (rentals d) i of
        None \<Rightarrow> Inl RentalNotFound
      | Some r \<Rightarrow> Inr (d\<lparr>rentals := delete_first i (rentals d)\<rparr>))"

section \<open>The routes\<close>

text \<open>
  \<^verbatim>\<open>rentalValidation\<close> of \<^verbatim>\<open>middleware/sanitize.js\<close>: \<^verbatim>\<open>car\<close>, \<^verbatim>\<open>client\<close>,
  \<^verbatim>\<open>employee\<close>, \<^verbatim>\<open>startDate\<close>, \<^verbatim>\<open>endDate\<close> and \<^verbatim>\<open>totalCost\<close> are \<^verbatim>\<open>notEmpty()\<close>, the
  dates are \<^verbatim>\<open>isISO8601().toDate()\<close>, \<^verbatim>\<open>totalCost\<close> is a float that is at least 0, and
  \<^verbatim>\<open>status\<close> is \<^verbatim>\<open>optional()\<close>. The route table runs it before both
  \<^verbatim>\<open>createRental\<close> (POST) and \<^verbatim>\<open>updateRental\<close> (PUT); \<^verbatim>\<open>handleValidationErrors\<close> answers
  400 \<^verbatim>\<open>Validation failed\<close> when it fails.

  The predicate is on the body as the middleware hands it to the handler. There
  \<^verbatim>\<open>toDate()\<close> has replaced each date string by a \<^verbatim>\<open>Date\<close> object with a valid time, or
  by \<^verbatim>\<open>null\<close> when the string passes \<^verbatim>\<open>isISO8601\<close> and \<^verbatim>\<open>Date.parse\<close> cannot read it.
\<close>

fun toDate_result :: "date_input option \<Rightarrow> bool" where
  "toDate_result (Some (DateObject (Some t))) = True"
| "toDate_result (Some NullValue) = True"
| "toDate_result v = False"

definition rentalValidation :: "body \<Rightarrow> bool" where
  "rentalValidation b \<longleftrightarrow>
     req_car b \<noteq> None \<and> req_client b \<noteq> None \<and> req_employee b \<noteq> None \<and>
     toDate_result (req_startDate b) \<and> toDate_result (req_endDate b) \<and>
     (case req_totalCost b of None \<Rightarrow> False | Some cost \<Rightarrow> 0 \<le> cost)"

definition post_rentals :: "env \<Rightarrow> db \<Rightarrow> body \<Rightarrow> error + db" where
  "post_rentals ev d b =
     (if rentalValidation b then createRental ev d b else Inl RequestValidationFailed)"

definition put_rentals :: "env \<Rightarrow> db \<Rightarrow> nat \<Rightarrow> body \<Rightarrow> error + db" where
  "put_rentals ev d i b =
     (if rentalValidation b then updateRental ev d i b else Inl RequestValidationFailed)"

section \<open>The invariant\<close>

text \<open>
  The overlap of two stored bookings as the specification writes it:
  \<^verbatim>\<open>B1.start < B2.end AND B2.start < B1.end\<close>.
\<close>

definition overlaps :: "rental \<Rightarrow> rental \<Rightarrow> bool" where
  "overlaps b1 b2 \<longleftrightarrow> startDate b1 < endDate b2 \<and> startDate b2 < endDate b1"


text \<open>
  The single closed-interval test that the three clauses of the query are compared
  with: \<^verbatim>\<open>existing.startDate <= end AND existing.endDate >= start\<close>.
\<close>

definition closed_overlap :: "int \<Rightarrow> int \<Rightarrow> rental \<Rightarrow> bool" where
  "closed_overlap start endD r \<longleftrightarrow> startDate r \<le> endD \<and> endDate r \<ge> start"

text \<open>
  The states of the database that the routes of the rental API produce by serving
  one request after the other, from a database with no rental: POST (through
  \<^verbatim>\<open>rentalValidation\<close> to \<^verbatim>\<open>createRental\<close>), PUT (through \<^verbatim>\<open>rentalValidation\<close> to
  \<^verbatim>\<open>updateRental\<close>) and DELETE (\<^verbatim>\<open>deleteRental\<close>). The fleet may change at any time
  (the car controller).
\<close>

inductive reachable :: "db \<Rightarrow> bool" where
  start: "reachable \<lparr>cars = cs, rentals = []\<rparr>"
| fleet: "reachable d \<Longrightarrow> reachable (d\<lparr>cars := cs\<rparr>)"
| posted: "reachable d \<Longrightarrow> post_rentals ev d b = Inr d' \<Longrightarrow> reachable d'"
| put: "reachable d \<Longrightarrow> put_rentals ev d i b = Inr d' \<Longrightarrow> reachable d'"
| deleted: "reachable d \<Longrightarrow> deleteRental d i = Inr d' \<Longrightarrow> reachable d'"

section \<open>Example data\<close>

text \<open>
  The example of the specification: days of June 2024 at midnight UTC, a server in
  UTC whose clock reads noon of 20 May 2024, two cars that are available. The dates
  of the request bodies are \<^verbatim>\<open>Date\<close> objects, as the validation middleware leaves them.
\<close>

definition jun :: "int \<Rightarrow> int" where
  "jun n = 1717200000000 + (n - 1) * msPerDay"

definition ex_env :: env where
  "ex_env = \<lparr>now = 1716206400000, tzOffset = 0\<rparr>"

definition ex_cars :: "car_doc list" where
  "ex_cars = [\<lparr>car_id = 1, car_status = Available\<rparr>, \<lparr>car_id = 2, car_status = Available\<rparr>]"

definition ex_rental :: "nat \<Rightarrow> nat \<Rightarrow> int \<Rightarrow> int \<Rightarrow> rental_status \<Rightarrow> rental" where
  "ex_rental i c s e st =
     \<lparr>rid = i, car = c, client = 1, employee = 1, startDate = s, endDate = e,
      totalCost = 100, status = st\<rparr>"

definition ex_body :: "nat \<Rightarrow> int \<Rightarrow> int \<Rightarrow> body" where
  "ex_body c s e =
     \<lparr>req_car = Some c, req_client = Some 1, req_employee = Some 1,
      req_startDate = Some (DateObject (Some s)), req_endDate = Some (DateObject (Some e)),
      req_totalCost = Some 100, req_status = None\<rparr>"

definition no_fields :: body where
  "no_fields =
     \<lparr>req_car = None, req_client = None, req_employee = None, req_startDate = None,
      req_endDate = None, req_totalCost = None, req_status = None\<rparr>"

section \<open>Evaluation and basic facts\<close>

lemmas ex_defs = jun_def ex_env_def ex_cars_def ex_rental_def ex_body_def no_fields_def
  msPerDay_def

lemmas engine_defs = createRental_def createRental_checks_def Rental_create_def
  updateRental_def updateRental_dates_def updateRental_car_def Rental_findByIdAndUpdate_def
  deleteRental_def dateOnly_def today_def overlappingRentals_def overlappingRentalsExcept_def
  or_clauses_def new_ObjectId_def set_fields_def date_or_def targetCarId_def


lemma overlappingRentals_empty:
  "overlappingRentals rs c s e = [] \<longleftrightarrow>
     (\<forall>r \<in> set rs. \<not> (car r = c \<and> status r = Active \<and> or_clauses s e r))"
  by (simp add: overlappingRentals_def filter_empty_conv)

lemma overlappingRentalsExcept_empty:
  "overlappingRentalsExcept rs i c s e = [] \<longleftrightarrow>
     (\<forall>r \<in> set rs. \<not> (rid r \<noteq> i \<and> car r = c \<and> status r = Active \<and> or_clauses s e r))"
  by (simp add: overlappingRentalsExcept_def filter_empty_conv)

lemma schema_date_new_Date: "schema_date v = Some t \<Longrightarrow> new_Date (Some v) = Some t"
  by (cases v) auto


lemma truthy_Some: "truthy v \<Longrightarrow> \<exists>x. v = Some x"
  by (cases v) auto


lemma fold_max_ge: "x \<in> set xs \<Longrightarrow> x \<le> fold max xs (a::nat)"
proof (induction xs arbitrary: a)
  case Nil then show ?case by simp
next
  case (Cons y ys)
  have mono: "\<And>zs (p::nat) q. p \<le> q \<Longrightarrow> fold max zs p \<le> fold max zs q"
  proof -
    fix zs :: "nat list" and p q :: nat
    show "p \<le> q \<Longrightarrow> fold max zs p \<le> fold max zs q"
      by (induction zs arbitrary: p q) auto
  qed
  have base: "\<And>zs (p::nat). p \<le> fold max zs p"
  proof -
    fix zs :: "nat list" and p :: nat
    show "p \<le> fold max zs p"
    proof (induction zs arbitrary: p)
      case Nil then show ?case by simp
    next
      case (Cons z zs)
      have "p \<le> max z p" by simp
      also have "\<dots> \<le> fold max zs (max z p)" by (rule Cons.IH)
      finally show ?case by simp
    qed
  qed
  show ?case
  proof (cases "x = y")
    case True
    have "y \<le> max y a" by simp
    also have "\<dots> \<le> fold max ys (max y a)" by (rule base)
    finally show ?thesis using True by simp
  next
    case False
    with Cons.prems have "x \<in> set ys" by simp
    then show ?thesis using Cons.IH by simp
  qed
qed

lemma new_ObjectId_fresh: "r \<in> set rs \<Longrightarrow> rid r \<noteq> new_ObjectId rs"
proof
  assume r: "r \<in> set rs" and eq: "rid r = new_ObjectId rs"
  from r have "rid r \<in> set (map rid rs)" by simp
  then have "rid r \<le> fold max (map rid rs) 0" by (rule fold_max_ge)
  with eq show False by (simp add: new_ObjectId_def)
qed

text \<open>What a successful \<^verbatim>\<open>createRental\<close> has checked and written.\<close>

lemma createRental_Inr:
  assumes "createRental ev d b = Inr d'"
  obtains carId clientId employeeId start endD cost where
    "req_car b = Some carId" "req_client b = Some clientId" "req_employee b = Some employeeId"
    "new_Date (req_startDate b) = Some start" "new_Date (req_endDate b) = Some endD"
    "req_totalCost b = Some cost" "0 \<le> cost"
    "\<not> dateOnly ev start < today ev" "start < endD"
    "overlappingRentals (rentals d) carId start endD = []"
    "d' = d\<lparr>rentals := rentals d @
            [\<lparr>rid = new_ObjectId (rentals d), car = carId, client = clientId,
              employee = employeeId, startDate = start, endDate = endD, totalCost = cost,
              status = (case req_status b of None \<Rightarrow> Active | Some s \<Rightarrow> s)\<rparr>]\<rparr>"
proof -
  from assms obtain carId clientId employeeId start endD cost sv ev' where
    a: "req_car b = Some carId" "req_client b = Some clientId" "req_employee b = Some employeeId"
      "req_startDate b = Some sv" "req_endDate b = Some ev'"
      "schema_date sv = Some start" "schema_date ev' = Some endD"
      "req_totalCost b = Some cost" "0 \<le> cost"
    and d': "d' = d\<lparr>rentals := rentals d @
            [\<lparr>rid = new_ObjectId (rentals d), car = carId, client = clientId,
              employee = employeeId, startDate = start, endDate = endD, totalCost = cost,
              status = (case req_status b of None \<Rightarrow> Active | Some s \<Rightarrow> s)\<rparr>]\<rparr>"
    by (auto simp: createRental_def Rental_create_def Option.bind_eq_Some_conv
             split: option.splits if_splits sum.splits prod.splits)
  from a have n: "new_Date (req_startDate b) = Some start" "new_Date (req_endDate b) = Some endD"
    by (simp_all add: schema_date_new_Date)
  from assms a n have c: "\<not> dateOnly ev start < today ev" "start < endD"
    "overlappingRentals (rentals d) carId start endD = []"
    by (auto simp: createRental_def createRental_checks_def
             split: option.splits if_splits sum.splits)
  from a n c d' that show thesis by blast
qed



lemma findById_mem: "Rental_findById rs i = Some r \<Longrightarrow> r \<in> set rs \<and> rid r = i"
  by (induction rs) (auto split: if_splits)


lemma delete_first_set: "x \<in> set (delete_first i rs) \<Longrightarrow> x \<in> set rs"
  by (induction rs) (auto split: if_splits)

lemma rid_set_fields [simp]: "rid (set_fields b r) = rid r"
  by (simp add: set_fields_def)





lemma updateRental_Inr:
  assumes "updateRental ev d i b = Inr d'"
  obtains oldRental where
    "Rental_findById (rentals d) i = Some oldRental"
    "updateRental_dates ev d i oldRental b = None"
    "\<forall>v. req_startDate b = Some v \<longrightarrow> schema_date v \<noteq> None"
    "\<forall>v. req_endDate b = Some v \<longrightarrow> schema_date v \<noteq> None"
    "d' = d\<lparr>rentals := update_first i (set_fields b) (rentals d)\<rparr>"
  using assms
  by (auto simp: updateRental_def Rental_findByIdAndUpdate_def
           split: option.splits if_splits sum.splits)








text \<open>The ids of the stored rentals stay distinct.\<close>

lemma update_first_rids: "map rid (update_first i (set_fields b) rs) = map rid rs"
  by (induction rs) auto

lemma delete_first_distinct: "distinct (map rid rs) \<Longrightarrow> distinct (map rid (delete_first i rs))"
proof (induction rs)
  case Nil
  then show ?case by simp
next
  case (Cons r rs)
  have "rid ` set (delete_first i rs) \<subseteq> rid ` set rs"
    using delete_first_set by blast
  with Cons show ?case by auto
qed

lemma reachable_distinct_ids: "reachable d \<Longrightarrow> distinct (map rid (rentals d))"
proof (induction rule: reachable.induct)
  case (start cs)
  show ?case by simp
next
  case (fleet d cs)
  then show ?case by simp
next
  case (posted d ev b d')
  from posted.hyps(2) have "createRental ev d b = Inr d'"
    by (auto simp: post_rentals_def split: if_splits)
  then obtain n where d': "rentals d' = rentals d @ [n]"
    and n: "rid n = new_ObjectId (rentals d)"
    by (rule createRental_Inr) simp
  have "rid n \<notin> set (map rid (rentals d))"
    using new_ObjectId_fresh n by fastforce
  with posted.IH d' show ?case by simp
next
  case (put d ev i b d')
  from put.hyps(2) have "updateRental ev d i b = Inr d'"
    by (auto simp: put_rentals_def split: if_splits)
  then have "rentals d' = update_first i (set_fields b) (rentals d)"
    by (auto elim!: updateRental_Inr)
  with put.IH show ?case by (simp add: update_first_rids)
next
  case (deleted d i d')
  from deleted.hyps(2) have "rentals d' = delete_first i (rentals d)"
    by (auto simp: deleteRental_def split: option.splits)
  with deleted.IH show ?case by (simp add: delete_first_distinct)
qed

section \<open>What the checks decide\<close>

lemma touching_or_clauses:
  "start < endD \<Longrightarrow> endDate r = start \<or> startDate r = endD \<Longrightarrow> or_clauses start endD r"
  unfolding or_clauses_def by linarith

lemma Rental_create_error:
  "Rental_create d b = Inl e \<Longrightarrow>
   e = ValidationFailed \<or> e = TotalCostRequired \<or> e = HookEndNotAfterStart"
  by (auto simp: Rental_create_def split: option.splits if_splits prod.splits)

lemma createRental_error_iff:
  assumes "e \<noteq> ValidationFailed" "e \<noteq> TotalCostRequired" "e \<noteq> HookEndNotAfterStart"
  shows "createRental ev d b = Inl e \<longleftrightarrow> createRental_checks ev d b = Inl e"
  using assms Rental_create_error[of d b e]
  by (auto simp: createRental_def split: sum.splits)

lemma Rental_findByIdAndUpdate_error:
  "Rental_findByIdAndUpdate rs i b = Inl e \<Longrightarrow> e = ValidationFailed \<or> e = HookEndNotAfterStart"
  by (auto simp: Rental_findByIdAndUpdate_def split: if_splits)

lemma updateRental_car_error:
  "updateRental_car d oldRental b = Some e \<Longrightarrow> e = CarNotFound \<or> e = CarInMaintenance"
  by (auto simp: updateRental_car_def split: option.splits if_splits)

lemma createRental_conflict_iff:
  assumes "req_car b = Some carId" "req_client b \<noteq> None" "req_employee b \<noteq> None"
    and "\<forall>cost. req_totalCost b = Some cost \<longrightarrow> 0 \<le> cost"
    and "new_Date (req_startDate b) = Some start" "new_Date (req_endDate b) = Some endD"
    and "\<not> dateOnly ev start < today ev" "start < endD"
    and "Car_findById (cars d) carId = Some c" "car_status c \<noteq> Maintenance"
  shows "createRental ev d b = Inl CarAlreadyBooked \<longleftrightarrow>
         (\<exists>r \<in> set (rentals d). car r = carId \<and> status r = Active \<and> or_clauses start endD r)"
proof -
  have "createRental ev d b = Inl CarAlreadyBooked \<longleftrightarrow>
        createRental_checks ev d b = Inl CarAlreadyBooked"
    by (simp add: createRental_error_iff)
  also have "\<dots> \<longleftrightarrow> overlappingRentals (rentals d) carId start endD \<noteq> []"
    using assms by (auto simp: createRental_checks_def split: option.splits)
  finally show ?thesis by (auto simp: overlappingRentals_empty)
qed

lemma updateRental_dates_cases:
  assumes "truthy (req_startDate b) \<or> truthy (req_endDate b)"
    and "date_or (req_startDate b) (startDate oldRental) = Some start"
    and "date_or (req_endDate b) (endDate oldRental) = Some endD"
  shows "updateRental_dates ev d i oldRental b =
     (if status oldRental = Active \<and> dateOnly ev start < today ev then Some StartDateInPastActive
      else if endD \<le> start then Some EndNotAfterStart
      else if overlappingRentalsExcept (rentals d) i (targetCarId b oldRental) start endD \<noteq> []
      then Some CarAlreadyBooked else None)"
  using assms by (auto simp: updateRental_dates_def)

lemma updateRental_dates_error:
  "Rental_findById (rentals d) i = Some oldRental \<Longrightarrow>
   updateRental_dates ev d i oldRental b = Some e \<Longrightarrow> updateRental ev d i b = Inl e"
  by (simp add: updateRental_def)

text \<open>
  The three errors of the date block come from the date block: the checks after it
  and the schema have other errors.
\<close>

lemma updateRental_date_error_iff:
  assumes "e = StartDateInPastActive \<or> e = EndNotAfterStart \<or> e = CarAlreadyBooked"
  shows "updateRental ev d i b = Inl e \<longleftrightarrow>
     (\<exists>oldRental. Rental_findById (rentals d) i = Some oldRental \<and>
        updateRental_dates ev d i oldRental b = Some e)"
proof
  assume u: "updateRental ev d i b = Inl e"
  with assms obtain oldRental where old: "Rental_findById (rentals d) i = Some oldRental"
    by (cases "Rental_findById (rentals d) i") (auto simp: updateRental_def)
  show "\<exists>oldRental. Rental_findById (rentals d) i = Some oldRental \<and>
        updateRental_dates ev d i oldRental b = Some e"
  proof (cases "updateRental_dates ev d i oldRental b")
    case None
    with u old assms show ?thesis
      using updateRental_car_error[of d oldRental b e]
        Rental_findByIdAndUpdate_error[of "rentals d" i b e]
      by (auto simp: updateRental_def split: option.splits if_splits sum.splits)
  next
    case (Some e')
    with u old show ?thesis by (simp add: updateRental_def)
  qed
next
  assume "\<exists>oldRental. Rental_findById (rentals d) i = Some oldRental \<and>
        updateRental_dates ev d i oldRental b = Some e"
  then show "updateRental ev d i b = Inl e" by (auto simp: updateRental_def)
qed

lemma updateRental_conflict_iff:
  assumes "Rental_findById (rentals d) i = Some oldRental"
    and "truthy (req_startDate b) \<or> truthy (req_endDate b)"
    and "date_or (req_startDate b) (startDate oldRental) = Some start"
    and "date_or (req_endDate b) (endDate oldRental) = Some endD"
    and "\<not> (status oldRental = Active \<and> dateOnly ev start < today ev)" "start < endD"
  shows "updateRental ev d i b = Inl CarAlreadyBooked \<longleftrightarrow>
         (\<exists>r \<in> set (rentals d). rid r \<noteq> i \<and> car r = targetCarId b oldRental \<and>
            status r = Active \<and> or_clauses start endD r)"
proof -
  have "updateRental ev d i b = Inl CarAlreadyBooked \<longleftrightarrow>
        updateRental_dates ev d i oldRental b = Some CarAlreadyBooked"
    using assms(1) by (simp add: updateRental_date_error_iff)
  also have "\<dots> \<longleftrightarrow>
        overlappingRentalsExcept (rentals d) i (targetCarId b oldRental) start endD \<noteq> []"
    using assms by (simp add: updateRental_dates_cases)
  finally show ?thesis by (auto simp: overlappingRentalsExcept_empty)
qed

lemma updateRental_EndNotAfterStart_iff:
  assumes "Rental_findById (rentals d) i = Some oldRental"
    and "truthy (req_startDate b) \<or> truthy (req_endDate b)"
    and "date_or (req_startDate b) (startDate oldRental) = Some start"
    and "date_or (req_endDate b) (endDate oldRental) = Some endD"
    and "\<not> (status oldRental = Active \<and> dateOnly ev start < today ev)"
  shows "updateRental ev d i b = Inl EndNotAfterStart \<longleftrightarrow> endD \<le> start"
proof -
  have "updateRental ev d i b = Inl EndNotAfterStart \<longleftrightarrow>
        updateRental_dates ev d i oldRental b = Some EndNotAfterStart"
    using assms(1) by (simp add: updateRental_date_error_iff)
  also have "\<dots> \<longleftrightarrow> endD \<le> start"
    using assms by (simp add: updateRental_dates_cases)
  finally show ?thesis .
qed

lemma createRental_StartDateInPast_iff:
  "createRental ev d b = Inl StartDateInPast \<longleftrightarrow>
     req_car b \<noteq> None \<and> req_client b \<noteq> None \<and> req_employee b \<noteq> None \<and>
     (\<forall>cost. req_totalCost b = Some cost \<longrightarrow> 0 \<le> cost) \<and>
     (\<exists>start endD. new_Date (req_startDate b) = Some start \<and>
        new_Date (req_endDate b) = Some endD \<and> dateOnly ev start < today ev)"
  by (auto simp: createRental_error_iff createRental_checks_def
           split: option.splits if_splits prod.splits)

lemma createRental_EndNotAfterStart_iff:
  "createRental ev d b = Inl EndNotAfterStart \<longleftrightarrow>
     req_car b \<noteq> None \<and> req_client b \<noteq> None \<and> req_employee b \<noteq> None \<and>
     (\<forall>cost. req_totalCost b = Some cost \<longrightarrow> 0 \<le> cost) \<and>
     (\<exists>start endD. new_Date (req_startDate b) = Some start \<and>
        new_Date (req_endDate b) = Some endD \<and> \<not> dateOnly ev start < today ev \<and> endD \<le> start)"
  by (auto simp: createRental_error_iff createRental_checks_def
           split: option.splits if_splits prod.splits)

lemma updateRental_dates_StartDateInPastActive_iff:
  "updateRental_dates ev d i oldRental b = Some StartDateInPastActive \<longleftrightarrow>
     (truthy (req_startDate b) \<or> truthy (req_endDate b)) \<and> status oldRental = Active \<and>
     (\<exists>start. date_or (req_startDate b) (startDate oldRental) = Some start \<and>
        dateOnly ev start < today ev) \<and>
     date_or (req_endDate b) (endDate oldRental) \<noteq> None"
  by (auto simp: updateRental_dates_def split: option.splits if_splits)

lemma dateOnly_less_iff:
  "dateOnly ev s < dateOnly ev t \<longleftrightarrow> (s + tzOffset ev) div msPerDay < (t + tzOffset ev) div msPerDay"
  by (simp add: dateOnly_def msPerDay_def)

lemma updateRental_dates_not_active:
  "status oldRental \<noteq> Active \<Longrightarrow>
   updateRental_dates ev' d i oldRental b = updateRental_dates ev d i oldRental b"
  by (simp add: updateRental_dates_def split: option.splits)

text \<open>A PUT whose body has passed the validation is the handler on that body.\<close>

lemma put_rentals_valid: "rentalValidation b \<Longrightarrow> put_rentals ev d i b = updateRental ev d i b"
  by (simp add: put_rentals_def)

lemma date_or_DateObject [simp]: "date_or (Some (DateObject t)) old = t"
  by (simp add: date_or_def)

lemma rentalValidation_car:
  "rentalValidation b \<Longrightarrow> req_car b = Some c \<Longrightarrow> targetCarId b oldRental = c"
  by (simp add: targetCarId_def)


lemma createRental_checks_isl: "isl (createRental_checks ev d b) \<Longrightarrow> isl (createRental ev d b)"
  by (auto simp: createRental_def split: sum.splits)

lemma or_clauses_explicit:
  "or_clauses start endD r \<longleftrightarrow>
     (startDate r \<le> start \<and> start \<le> endDate r) \<or>
     (startDate r \<le> endD \<and> endD \<le> endDate r) \<or>
     (start \<le> startDate r \<and> endDate r \<le> endD)"
  by (auto simp: or_clauses_def)

lemma updateRental_past_iff:
  assumes "truthy v"
  shows "updateRental ev d i (b\<lparr>req_startDate := v\<rparr>) = Inl StartDateInPastActive \<longleftrightarrow>
     (\<exists>oldRental start. Rental_findById (rentals d) i = Some oldRental \<and>
        status oldRental = Active \<and> new_Date v = Some start \<and> dateOnly ev start < today ev \<and>
        date_or (req_endDate b) (endDate oldRental) \<noteq> None)"
  using assms
  by (auto simp: updateRental_date_error_iff updateRental_dates_StartDateInPastActive_iff
        date_or_def)

lemma targetCarId_status [simp]:
  "targetCarId (b\<lparr>req_status := x\<rparr>) oldRental = targetCarId b oldRental"
  by (simp add: targetCarId_def)

lemma updateRental_dates_status [simp]:
  "updateRental_dates ev d i oldRental (b\<lparr>req_status := x\<rparr>) = updateRental_dates ev d i oldRental b"
  unfolding updateRental_dates_def targetCarId_status by simp

lemma updateRental_car_status [simp]:
  "updateRental_car d oldRental (b\<lparr>req_status := x\<rparr>) = updateRental_car d oldRental b"
  by (simp add: updateRental_car_def)

lemma findById_update_first:
  "Rental_findById rs i = Some old \<Longrightarrow> Rental_findById (update_first i f rs) i = Some (f old) \<or> rid (f old) \<noteq> i"
  by (induction rs) (auto split: if_splits)

lemma overlappingRentals_active_only:
  "overlappingRentals (filter (\<lambda>r. status r = Active) rs) c s e = overlappingRentals rs c s e"
  by (auto simp: overlappingRentals_def intro: filter_cong)

lemma overlappingRentalsExcept_active_only:
  "overlappingRentalsExcept (filter (\<lambda>r. status r = Active) rs) i c s e
     = overlappingRentalsExcept rs i c s e"
  by (auto simp: overlappingRentalsExcept_def intro: filter_cong)

lemma update_first_set_distinct:
  "distinct (map rid rs) \<Longrightarrow> Rental_findById rs i = Some old \<Longrightarrow>
   x \<in> set (update_first i f rs) \<Longrightarrow> x = f old \<or> (x \<in> set rs \<and> rid x \<noteq> i)"
proof (induction rs)
  case Nil
  then show ?case by simp
next
  case (Cons r rs)
  show ?case
  proof (cases "rid r = i")
    case True
    with Cons.prems have "old = r" "x = f r \<or> x \<in> set rs" by auto
    moreover have "\<forall>y \<in> set rs. rid y \<noteq> i"
    proof
      fix y assume "y \<in> set rs"
      then have "rid y \<in> set (map rid rs)" by simp
      with Cons.prems(1) True show "rid y \<noteq> i" by auto
    qed
    ultimately show ?thesis by auto
  next
    case False
    with Cons.prems have "Rental_findById rs i = Some old" "distinct (map rid rs)"
      "x = r \<or> x \<in> set (update_first i f rs)" by auto
    with Cons.IH False show ?thesis by auto
  qed
qed

section \<open>The invariant over the reachable states\<close>



section \<open>Back-to-back bookings\<close>

text \<open>
  Claim C2, as amended. Both conflict queries compare with \<^verbatim>\<open>$lte\<close> and \<^verbatim>\<open>$gte\<close>, so
  the intervals are closed: a candidate interval whose start equals the end of an
  active booking of the same car, or whose end equals its start, is a conflict.
  A \<^verbatim>\<open>createRental\<close> request that has passed the checks before the query fails with
  \<open>CarAlreadyBooked\<close>, and so does an \<^verbatim>\<open>updateRental\<close> request with a truthy date (which
  is what makes the handler run its date block), for a booking other than the one
  that touches.
\<close>

theorem back_to_back_is_conflict:
  assumes r: "r \<in> set (rentals d)" "status r = Active"
    and touch: "endDate r = start \<or> startDate r = endD"
  shows
    "(req_car b = Some (car r) \<and> req_client b \<noteq> None \<and> req_employee b \<noteq> None \<and>
      (\<forall>cost. req_totalCost b = Some cost \<longrightarrow> 0 \<le> cost) \<and>
      new_Date (req_startDate b) = Some start \<and> new_Date (req_endDate b) = Some endD \<and>
      \<not> dateOnly ev start < today ev \<and> start < endD \<and>
      Car_findById (cars d) (car r) = Some c \<and> car_status c \<noteq> Maintenance
      \<longrightarrow> createRental ev d b = Inl CarAlreadyBooked)
     \<and>
     (Rental_findById (rentals d) i = Some oldRental \<and> rid r \<noteq> i \<and>
      car r = targetCarId b' oldRental \<and>
      (truthy (req_startDate b') \<or> truthy (req_endDate b')) \<and>
      date_or (req_startDate b') (startDate oldRental) = Some start \<and>
      date_or (req_endDate b') (endDate oldRental) = Some endD \<and>
      \<not> (status oldRental = Active \<and> dateOnly ev start < today ev) \<and> start < endD
      \<longrightarrow> updateRental ev d i b' = Inl CarAlreadyBooked)"
proof (intro conjI impI)
  assume h: "req_car b = Some (car r) \<and> req_client b \<noteq> None \<and> req_employee b \<noteq> None \<and>
      (\<forall>cost. req_totalCost b = Some cost \<longrightarrow> 0 \<le> cost) \<and>
      new_Date (req_startDate b) = Some start \<and> new_Date (req_endDate b) = Some endD \<and>
      \<not> dateOnly ev start < today ev \<and> start < endD \<and>
      Car_findById (cars d) (car r) = Some c \<and> car_status c \<noteq> Maintenance"
  then have "or_clauses start endD r" using touch touching_or_clauses by blast
  with r have "\<exists>x \<in> set (rentals d). car x = car r \<and> status x = Active \<and> or_clauses start endD x"
    by blast
  with h show "createRental ev d b = Inl CarAlreadyBooked"
    using createRental_conflict_iff[of b "car r" start endD ev d c] by blast
next
  assume h: "Rental_findById (rentals d) i = Some oldRental \<and> rid r \<noteq> i \<and>
      car r = targetCarId b' oldRental \<and>
      (truthy (req_startDate b') \<or> truthy (req_endDate b')) \<and>
      date_or (req_startDate b') (startDate oldRental) = Some start \<and>
      date_or (req_endDate b') (endDate oldRental) = Some endD \<and>
      \<not> (status oldRental = Active \<and> dateOnly ev start < today ev) \<and> start < endD"
  then have "or_clauses start endD r" using touch touching_or_clauses by blast
  with r h have "\<exists>x \<in> set (rentals d). rid x \<noteq> i \<and> car x = targetCarId b' oldRental \<and>
      status x = Active \<and> or_clauses start endD x"
    by blast
  with h show "updateRental ev d i b' = Inl CarAlreadyBooked"
    using updateRental_conflict_iff[of d i oldRental b' start endD ev] by blast
qed

text \<open>
  Claim C2 as stated fails on the example of the specification: car 1 is booked from
  1 June to 5 June, and the request for 5 June to 8 June is not accepted.
\<close>

theorem back_to_back_create_rejected:
  "endDate (ex_rental 1 1 (jun 1) (jun 5) Active) = jun 5
   \<and> createRental ex_env \<lparr>cars = ex_cars, rentals = [ex_rental 1 1 (jun 1) (jun 5) Active]\<rparr>
        (ex_body 1 (jun 5) (jun 8)) = Inl CarAlreadyBooked"
  by (simp add: engine_defs ex_defs)

text \<open>
  A reservation that ends on the first day of a later booking, and an update that
  moves booking 2 to end on the first day of booking 1.
\<close>

theorem back_to_back_is_conflict_witness:
  "createRental ex_env \<lparr>cars = ex_cars, rentals = [ex_rental 1 1 (jun 5) (jun 8) Active]\<rparr>
        (ex_body 1 (jun 1) (jun 5)) = Inl CarAlreadyBooked
   \<and> updateRental ex_env
        \<lparr>cars = ex_cars, rentals = [ex_rental 1 1 (jun 5) (jun 8) Active,
                                    ex_rental 2 1 (jun 10) (jun 12) Active]\<rparr>
        2 (ex_body 1 (jun 1) (jun 5)) = Inl CarAlreadyBooked"
  using back_to_back_is_conflict[where r = "ex_rental 1 1 (jun 5) (jun 8) Active"
      and d = "\<lparr>cars = ex_cars, rentals = [ex_rental 1 1 (jun 5) (jun 8) Active]\<rparr>"
      and start = "jun 1" and endD = "jun 5" and b = "ex_body 1 (jun 1) (jun 5)" and ev = ex_env
      and c = "\<lparr>car_id = 1, car_status = Available\<rparr>"]
    back_to_back_is_conflict[where r = "ex_rental 1 1 (jun 5) (jun 8) Active"
      and d = "\<lparr>cars = ex_cars, rentals = [ex_rental 1 1 (jun 5) (jun 8) Active,
                                    ex_rental 2 1 (jun 10) (jun 12) Active]\<rparr>"
      and start = "jun 1" and endD = "jun 5" and i = 2
      and oldRental = "ex_rental 2 1 (jun 10) (jun 12) Active"
      and b' = "ex_body 1 (jun 1) (jun 5)" and ev = ex_env]
  by (simp add: ex_defs dateOnly_def today_def date_or_def targetCarId_def)

section \<open>Two requests at the same time\<close>

text \<open>
  Claim C3. \<^verbatim>\<open>createRental\<close> awaits the conflict query and then awaits
  \<^verbatim>\<open>Rental.create\<close>; nothing holds the collection between the two. When the
  requests of client 1 and of client 2 for car 1 and the same days both run their
  checks before either one writes, both checks pass and both bookings are written:
  the database holds two active overlapping bookings of car 1. Served one after the
  other, the second request fails with \<open>CarAlreadyBooked\<close>.
\<close>

theorem createRental_race:
  "createRental_checks ex_env \<lparr>cars = ex_cars, rentals = []\<rparr> (ex_body 1 (jun 1) (jun 5)) = Inr ()
   \<and> createRental_checks ex_env \<lparr>cars = ex_cars, rentals = []\<rparr>
         ((ex_body 1 (jun 1) (jun 5))\<lparr>req_client := Some 2\<rparr>) = Inr ()
   \<and> Rental_create \<lparr>cars = ex_cars, rentals = []\<rparr> (ex_body 1 (jun 1) (jun 5))
       = Inr \<lparr>cars = ex_cars, rentals = [ex_rental 1 1 (jun 1) (jun 5) Active]\<rparr>
   \<and> Rental_create \<lparr>cars = ex_cars, rentals = [ex_rental 1 1 (jun 1) (jun 5) Active]\<rparr>
         ((ex_body 1 (jun 1) (jun 5))\<lparr>req_client := Some 2\<rparr>)
       = Inr \<lparr>cars = ex_cars, rentals = [ex_rental 1 1 (jun 1) (jun 5) Active,
                                         (ex_rental 2 1 (jun 1) (jun 5) Active)\<lparr>client := 2\<rparr>]\<rparr>
   \<and> overlaps (ex_rental 1 1 (jun 1) (jun 5) Active)
         ((ex_rental 2 1 (jun 1) (jun 5) Active)\<lparr>client := 2\<rparr>)
   \<and> createRental ex_env \<lparr>cars = ex_cars, rentals = [ex_rental 1 1 (jun 1) (jun 5) Active]\<rparr>
         ((ex_body 1 (jun 1) (jun 5))\<lparr>req_client := Some 2\<rparr>) = Inl CarAlreadyBooked"
  by (simp add: engine_defs ex_defs overlaps_def)

section \<open>The conflict query of an update\<close>



section \<open>Changes of status\<close>

text \<open>
  Claim C5, as amended. \<^verbatim>\<open>updateRental\<close> has no rule on transitions: whether a
  request succeeds, and the error of one that fails, do not depend on the status it
  asks for, and a request that succeeds leaves the booking with the status it asked
  for, whatever the booking's status was.
\<close>

theorem updateRental_status_unguarded:
  "map_sum id (\<lambda>_. ()) (updateRental ev d i (b\<lparr>req_status := x\<rparr>))
     = map_sum id (\<lambda>_. ()) (updateRental ev d i b)
   \<and> (updateRental ev d i b = Inr d' \<and> req_status b = Some s
        \<longrightarrow> (\<exists>r. Rental_findById (rentals d') i = Some r \<and> status r = s))"
proof (intro conjI impI)
  have f: "map_sum id (\<lambda>_. ()) (Rental_findByIdAndUpdate (rentals d) i (b\<lparr>req_status := x\<rparr>))
      = map_sum id (\<lambda>_. ()) (Rental_findByIdAndUpdate (rentals d) i b)"
    by (simp add: Rental_findByIdAndUpdate_def)
  show "map_sum id (\<lambda>_. ()) (updateRental ev d i (b\<lparr>req_status := x\<rparr>))
     = map_sum id (\<lambda>_. ()) (updateRental ev d i b)"
  proof (cases "Rental_findById (rentals d) i")
    case None
    then show ?thesis by (simp add: updateRental_def)
  next
    case (Some oldRental)
    show ?thesis
    proof (cases "updateRental_dates ev d i oldRental b")
      case (Some e)
      with \<open>Rental_findById (rentals d) i = Some oldRental\<close> show ?thesis
        by (simp add: updateRental_def)
    next
      case None
      show ?thesis
      proof (cases "updateRental_car d oldRental b")
        case (Some e)
        with None \<open>Rental_findById (rentals d) i = Some oldRental\<close> show ?thesis
          by (simp add: updateRental_def)
      next
        case n: None
        from f show ?thesis
          using None n \<open>Rental_findById (rentals d) i = Some oldRental\<close>
          by (cases "Rental_findByIdAndUpdate (rentals d) i b";
              cases "Rental_findByIdAndUpdate (rentals d) i (b\<lparr>req_status := x\<rparr>)")
             (simp_all add: updateRental_def)
      qed
    qed
  qed
next
  assume h: "updateRental ev d i b = Inr d' \<and> req_status b = Some s"
  then obtain oldRental where old: "Rental_findById (rentals d) i = Some oldRental"
    and d': "d' = d\<lparr>rentals := update_first i (set_fields b) (rentals d)\<rparr>"
    by (auto elim!: updateRental_Inr)
  from old have "rid oldRental = i" using findById_mem by blast
  with findById_update_first[OF old, of "set_fields b"]
  have "Rental_findById (update_first i (set_fields b) (rentals d)) i = Some (set_fields b oldRental)"
    by simp
  moreover from h have "status (set_fields b oldRental) = s" by (simp add: set_fields_def)
  ultimately show "\<exists>r. Rental_findById (rentals d') i = Some r \<and> status r = s"
    using d' by simp
qed

text \<open>
  Claim C5 as stated fails: a completed booking is made active again, by a request
  with every field that the route requires.
\<close>

theorem completed_booking_reactivated:
  "updateRental ex_env
        \<lparr>cars = ex_cars, rentals = [ex_rental 1 1 (jun 1) (jun 5) Completed]\<rparr>
        1 ((ex_body 1 (jun 1) (jun 5))\<lparr>req_status := Some Active\<rparr>)
      = Inr \<lparr>cars = ex_cars, rentals = [ex_rental 1 1 (jun 1) (jun 5) Active]\<rparr>"
  by (simp add: engine_defs ex_defs)

text \<open>A cancelled booking is set to completed.\<close>

theorem updateRental_status_unguarded_witness:
  "updateRental ex_env
        \<lparr>cars = ex_cars, rentals = [ex_rental 1 1 (jun 1) (jun 5) Cancelled]\<rparr>
        1 (no_fields\<lparr>req_status := Some Completed\<rparr>)
      = Inr \<lparr>cars = ex_cars, rentals = [ex_rental 1 1 (jun 1) (jun 5) Completed]\<rparr>
   \<and> (\<exists>r. Rental_findById [ex_rental 1 1 (jun 1) (jun 5) Completed] 1 = Some r \<and> status r = Completed)"
proof -
  have u: "updateRental ex_env
        \<lparr>cars = ex_cars, rentals = [ex_rental 1 1 (jun 1) (jun 5) Cancelled]\<rparr>
        1 (no_fields\<lparr>req_status := Some Completed\<rparr>)
      = Inr \<lparr>cars = ex_cars, rentals = [ex_rental 1 1 (jun 1) (jun 5) Completed]\<rparr>"
    by (simp add: engine_defs ex_defs)
  have s: "req_status (no_fields\<lparr>req_status := Some Completed\<rparr>) = Some Completed" by simp
  from updateRental_status_unguarded[where ev = ex_env
      and d = "\<lparr>cars = ex_cars, rentals = [ex_rental 1 1 (jun 1) (jun 5) Cancelled]\<rparr>"
      and i = 1 and b = "no_fields\<lparr>req_status := Some Completed\<rparr>"
      and d' = "\<lparr>cars = ex_cars, rentals = [ex_rental 1 1 (jun 1) (jun 5) Completed]\<rparr>"
      and s = Completed] u s
  show ?thesis by simp
qed

section \<open>Granularity of the date comparisons\<close>

text \<open>
  Claim C6, as amended. Only the check of a start date in the past works on calendar
  days: two start times on the same local day are both refused as past or both not,
  in \<^verbatim>\<open>createRental\<close> and, for truthy dates, in \<^verbatim>\<open>updateRental\<close>. The check of the
  interval (\<^verbatim>\<open>end <= start\<close>) and the conflict query compare the time values
  themselves, in both handlers.
\<close>

theorem past_check_day_granular:
  assumes "dateOnly ev s = dateOnly ev s'" "new_Date v = Some s" "new_Date v' = Some s'"
  shows
    "((createRental ev d (b\<lparr>req_startDate := v\<rparr>) = Inl StartDateInPast)
        = (createRental ev d (b\<lparr>req_startDate := v'\<rparr>) = Inl StartDateInPast))
     \<and>
     (truthy v \<and> truthy v' \<longrightarrow>
        (updateRental ev d i (b\<lparr>req_startDate := v\<rparr>) = Inl StartDateInPastActive)
          = (updateRental ev d i (b\<lparr>req_startDate := v'\<rparr>) = Inl StartDateInPastActive))
     \<and>
     (req_car b = Some carId \<and> req_client b \<noteq> None \<and> req_employee b \<noteq> None \<and>
      (\<forall>cost. req_totalCost b = Some cost \<longrightarrow> 0 \<le> cost) \<and>
      new_Date (req_startDate b) = Some start \<and> new_Date (req_endDate b) = Some endD \<and>
      \<not> dateOnly ev start < today ev
      \<longrightarrow>
        (createRental ev d b = Inl EndNotAfterStart) = (endD \<le> start)
        \<and>
        (start < endD \<and> Car_findById (cars d) carId = Some c \<and> car_status c \<noteq> Maintenance
          \<longrightarrow> (createRental ev d b = Inl CarAlreadyBooked) =
                (\<exists>r \<in> set (rentals d). car r = carId \<and> status r = Active \<and>
                   ((startDate r \<le> start \<and> start \<le> endDate r) \<or>
                    (startDate r \<le> endD \<and> endD \<le> endDate r) \<or>
                    (start \<le> startDate r \<and> endDate r \<le> endD)))))
     \<and>
     (Rental_findById (rentals d) i = Some oldRental \<and>
      (truthy (req_startDate b) \<or> truthy (req_endDate b)) \<and>
      date_or (req_startDate b) (startDate oldRental) = Some start \<and>
      date_or (req_endDate b) (endDate oldRental) = Some endD \<and>
      \<not> (status oldRental = Active \<and> dateOnly ev start < today ev)
      \<longrightarrow>
        (updateRental ev d i b = Inl EndNotAfterStart) = (endD \<le> start)
        \<and>
        (start < endD
          \<longrightarrow> (updateRental ev d i b = Inl CarAlreadyBooked) =
                (\<exists>r \<in> set (rentals d). rid r \<noteq> i \<and> car r = targetCarId b oldRental \<and>
                   status r = Active \<and>
                   ((startDate r \<le> start \<and> start \<le> endDate r) \<or>
                    (startDate r \<le> endD \<and> endD \<le> endDate r) \<or>
                    (start \<le> startDate r \<and> endDate r \<le> endD)))))"
proof (intro conjI impI)
  show "(createRental ev d (b\<lparr>req_startDate := v\<rparr>) = Inl StartDateInPast)
        = (createRental ev d (b\<lparr>req_startDate := v'\<rparr>) = Inl StartDateInPast)"
    using assms by (simp add: createRental_StartDateInPast_iff)
next
  assume "truthy v \<and> truthy v'"
  then show "(updateRental ev d i (b\<lparr>req_startDate := v\<rparr>) = Inl StartDateInPastActive)
          = (updateRental ev d i (b\<lparr>req_startDate := v'\<rparr>) = Inl StartDateInPastActive)"
    using assms by (simp add: updateRental_past_iff)
next
  assume h: "req_car b = Some carId \<and> req_client b \<noteq> None \<and> req_employee b \<noteq> None \<and>
      (\<forall>cost. req_totalCost b = Some cost \<longrightarrow> 0 \<le> cost) \<and>
      new_Date (req_startDate b) = Some start \<and> new_Date (req_endDate b) = Some endD \<and>
      \<not> dateOnly ev start < today ev"
  then show "(createRental ev d b = Inl EndNotAfterStart) = (endD \<le> start)"
    by (simp add: createRental_EndNotAfterStart_iff)
  assume "start < endD \<and> Car_findById (cars d) carId = Some c \<and> car_status c \<noteq> Maintenance"
  with h show "(createRental ev d b = Inl CarAlreadyBooked) =
                (\<exists>r \<in> set (rentals d). car r = carId \<and> status r = Active \<and>
                   ((startDate r \<le> start \<and> start \<le> endDate r) \<or>
                    (startDate r \<le> endD \<and> endD \<le> endDate r) \<or>
                    (start \<le> startDate r \<and> endDate r \<le> endD)))"
    using createRental_conflict_iff[of b carId start endD ev d c]
    by (simp add: or_clauses_explicit)
next
  assume h: "Rental_findById (rentals d) i = Some oldRental \<and>
      (truthy (req_startDate b) \<or> truthy (req_endDate b)) \<and>
      date_or (req_startDate b) (startDate oldRental) = Some start \<and>
      date_or (req_endDate b) (endDate oldRental) = Some endD \<and>
      \<not> (status oldRental = Active \<and> dateOnly ev start < today ev)"
  then show "(updateRental ev d i b = Inl EndNotAfterStart) = (endD \<le> start)"
    using updateRental_EndNotAfterStart_iff[of d i oldRental b start endD ev] by blast
  assume "start < endD"
  with h show "(updateRental ev d i b = Inl CarAlreadyBooked) =
                (\<exists>r \<in> set (rentals d). rid r \<noteq> i \<and> car r = targetCarId b oldRental \<and>
                   status r = Active \<and>
                   ((startDate r \<le> start \<and> start \<le> endDate r) \<or>
                    (startDate r \<le> endD \<and> endD \<le> endDate r) \<or>
                    (start \<le> startDate r \<and> endDate r \<le> endD)))"
    using updateRental_conflict_iff[of d i oldRental b start endD ev]
    by (simp add: or_clauses_explicit)
qed

text \<open>
  Claim C6 as stated fails. 08:00 and 17:00 of 1 June are the same calendar day, and
  yet the request from 08:00 to 17:00 is accepted while the one from 17:00 to 08:00
  is an inverted interval; and a booking that ends at 08:00 does not conflict with a
  request that starts at 17:00 of the same day.
\<close>

theorem same_day_times_compared:
  "dateOnly ex_env (jun 1 + 28800000) = dateOnly ex_env (jun 1 + 61200000)
   \<and> createRental ex_env \<lparr>cars = ex_cars, rentals = []\<rparr>
        (ex_body 1 (jun 1 + 28800000) (jun 1 + 61200000))
      = Inr \<lparr>cars = ex_cars,
             rentals = [ex_rental 1 1 (jun 1 + 28800000) (jun 1 + 61200000) Active]\<rparr>
   \<and> createRental ex_env \<lparr>cars = ex_cars, rentals = []\<rparr>
        (ex_body 1 (jun 1 + 61200000) (jun 1 + 28800000))
      = Inl EndNotAfterStart
   \<and> createRental ex_env
        \<lparr>cars = ex_cars, rentals = [ex_rental 1 1 (jun 1) (jun 1 + 28800000) Active]\<rparr>
        (ex_body 1 (jun 1 + 61200000) (jun 2))
      = Inr \<lparr>cars = ex_cars,
             rentals = [ex_rental 1 1 (jun 1) (jun 1 + 28800000) Active,
                        ex_rental 2 1 (jun 1 + 61200000) (jun 2) Active]\<rparr>"
  by (simp add: engine_defs ex_defs)

text \<open>
  With the clock at 3 June, 08:00 and 17:00 of 1 June are both in the past, for a
  reservation and for an update of an active booking.
\<close>

theorem past_check_day_granular_witness:
  "dateOnly (ex_env\<lparr>now := jun 3\<rparr>) (jun 1 + 28800000)
     = dateOnly (ex_env\<lparr>now := jun 3\<rparr>) (jun 1 + 61200000)
   \<and> createRental (ex_env\<lparr>now := jun 3\<rparr>) \<lparr>cars = ex_cars, rentals = []\<rparr>
        (ex_body 1 (jun 1 + 28800000) (jun 5)) = Inl StartDateInPast
   \<and> createRental (ex_env\<lparr>now := jun 3\<rparr>) \<lparr>cars = ex_cars, rentals = []\<rparr>
        (ex_body 1 (jun 1 + 61200000) (jun 5)) = Inl StartDateInPast
   \<and> updateRental (ex_env\<lparr>now := jun 3\<rparr>)
        \<lparr>cars = ex_cars, rentals = [ex_rental 1 1 (jun 4) (jun 5) Active]\<rparr> 1
        (ex_body 1 (jun 1 + 28800000) (jun 5)) = Inl StartDateInPastActive
   \<and> updateRental (ex_env\<lparr>now := jun 3\<rparr>)
        \<lparr>cars = ex_cars, rentals = [ex_rental 1 1 (jun 4) (jun 5) Active]\<rparr> 1
        (ex_body 1 (jun 1 + 61200000) (jun 5)) = Inl StartDateInPastActive"
proof -
  have a: "dateOnly (ex_env\<lparr>now := jun 3\<rparr>) (jun 1 + 28800000)
         = dateOnly (ex_env\<lparr>now := jun 3\<rparr>) (jun 1 + 61200000)"
    by (simp add: dateOnly_def ex_defs)
  have b: "createRental (ex_env\<lparr>now := jun 3\<rparr>) \<lparr>cars = ex_cars, rentals = []\<rparr>
        (ex_body 1 (jun 1 + 28800000) (jun 5)) = Inl StartDateInPast"
    by (simp add: engine_defs ex_defs)
  have u: "updateRental (ex_env\<lparr>now := jun 3\<rparr>)
        \<lparr>cars = ex_cars, rentals = [ex_rental 1 1 (jun 4) (jun 5) Active]\<rparr> 1
        (ex_body 1 (jun 1 + 28800000) (jun 5)) = Inl StartDateInPastActive"
    by (simp add: engine_defs ex_defs)
  have c: "(ex_body 1 (jun 1 + 28800000) (jun 5))
             \<lparr>req_startDate := Some (DateObject (Some (jun 1 + 28800000)))\<rparr>
         = ex_body 1 (jun 1 + 28800000) (jun 5)"
      "(ex_body 1 (jun 1 + 28800000) (jun 5))
             \<lparr>req_startDate := Some (DateObject (Some (jun 1 + 61200000)))\<rparr>
         = ex_body 1 (jun 1 + 61200000) (jun 5)"
    by (simp_all add: ex_body_def)
  have n: "new_Date (Some (DateObject (Some (jun 1 + 28800000)))) = Some (jun 1 + 28800000)"
    "new_Date (Some (DateObject (Some (jun 1 + 61200000)))) = Some (jun 1 + 61200000)"
    by simp_all
  note t = past_check_day_granular[OF a n]
  have t1: "(createRental (ex_env\<lparr>now := jun 3\<rparr>) \<lparr>cars = ex_cars, rentals = []\<rparr>
        (ex_body 1 (jun 1 + 28800000) (jun 5)) = Inl StartDateInPast)
      = (createRental (ex_env\<lparr>now := jun 3\<rparr>) \<lparr>cars = ex_cars, rentals = []\<rparr>
        (ex_body 1 (jun 1 + 61200000) (jun 5)) = Inl StartDateInPast)"
    using t[where d = "\<lparr>cars = ex_cars, rentals = []\<rparr>"
        and b = "ex_body 1 (jun 1 + 28800000) (jun 5)", THEN conjunct1]
    unfolding c .
  have t2: "(updateRental (ex_env\<lparr>now := jun 3\<rparr>)
        \<lparr>cars = ex_cars, rentals = [ex_rental 1 1 (jun 4) (jun 5) Active]\<rparr> 1
        (ex_body 1 (jun 1 + 28800000) (jun 5)) = Inl StartDateInPastActive)
      = (updateRental (ex_env\<lparr>now := jun 3\<rparr>)
        \<lparr>cars = ex_cars, rentals = [ex_rental 1 1 (jun 4) (jun 5) Active]\<rparr> 1
        (ex_body 1 (jun 1 + 61200000) (jun 5)) = Inl StartDateInPastActive)"
    using t[where d = "\<lparr>cars = ex_cars, rentals = [ex_rental 1 1 (jun 4) (jun 5) Active]\<rparr>"
        and i = 1 and b = "ex_body 1 (jun 1 + 28800000) (jun 5)",
        THEN conjunct2, THEN conjunct1]
    unfolding c by simp
  from a b u t1 t2
  show ?thesis by blast
qed

section \<open>Inverted intervals\<close>

text \<open>
  Claim C7. A \<^verbatim>\<open>createRental\<close> request with \<^verbatim>\<open>endDate <= startDate\<close> never writes a
  booking, whatever the database holds; when its ids and its cost are well-formed
  the error is one of the date errors (\<open>StartDateInPast\<close> or \<open>EndNotAfterStart\<close>,
  both \<^emph>\<open>InvalidInterval\<close>). On amendment the same check applies to the effective
  interval whenever \<^verbatim>\<open>updateRental\<close> runs its date block (a date of the body is
  truthy), which it does for every PUT that the validation lets through.
\<close>

theorem inverted_interval_rejected:
  "(new_Date (req_startDate b) = Some start \<and> new_Date (req_endDate b) = Some endD \<and>
    endD \<le> start
    \<longrightarrow> isl (createRental ev d b) \<and>
        (req_car b \<noteq> None \<and> req_client b \<noteq> None \<and> req_employee b \<noteq> None \<and>
         (\<forall>cost. req_totalCost b = Some cost \<longrightarrow> 0 \<le> cost)
         \<longrightarrow> createRental ev d b = Inl StartDateInPast \<or>
             createRental ev d b = Inl EndNotAfterStart))
   \<and>
   (Rental_findById (rentals d) i = Some oldRental \<and>
    (truthy (req_startDate b') \<or> truthy (req_endDate b')) \<and>
    date_or (req_startDate b') (startDate oldRental) = Some start \<and>
    date_or (req_endDate b') (endDate oldRental) = Some endD \<and> endD \<le> start
    \<longrightarrow> updateRental ev d i b' = Inl StartDateInPastActive \<or>
        updateRental ev d i b' = Inl EndNotAfterStart)
   \<and>
   (rentalValidation b' \<and> Rental_findById (rentals d) i = Some oldRental \<and>
    req_startDate b' = Some (DateObject (Some start)) \<and>
    req_endDate b' = Some (DateObject (Some endD)) \<and> endD \<le> start
    \<longrightarrow> put_rentals ev d i b' = Inl StartDateInPastActive \<or>
        put_rentals ev d i b' = Inl EndNotAfterStart)"
proof -
  have upd: "updateRental ev d i b' = Inl StartDateInPastActive \<or>
        updateRental ev d i b' = Inl EndNotAfterStart"
    if h: "Rental_findById (rentals d) i = Some oldRental"
      "truthy (req_startDate b') \<or> truthy (req_endDate b')"
      "date_or (req_startDate b') (startDate oldRental) = Some start"
      "date_or (req_endDate b') (endDate oldRental) = Some endD" "endD \<le> start"
  proof -
    from h have "updateRental_dates ev d i oldRental b' = Some StartDateInPastActive \<or>
        updateRental_dates ev d i oldRental b' = Some EndNotAfterStart"
      by (auto simp: updateRental_dates_cases)
    with h(1) show ?thesis using updateRental_dates_error by blast
  qed
  show ?thesis
  proof (intro conjI impI)
    assume h: "new_Date (req_startDate b) = Some start \<and> new_Date (req_endDate b) = Some endD \<and>
      endD \<le> start"
    then have "isl (createRental_checks ev d b)"
      by (auto simp: createRental_checks_def split: option.splits)
    then show "isl (createRental ev d b)" by (rule createRental_checks_isl)
    assume "req_car b \<noteq> None \<and> req_client b \<noteq> None \<and> req_employee b \<noteq> None \<and>
         (\<forall>cost. req_totalCost b = Some cost \<longrightarrow> 0 \<le> cost)"
    with h show "createRental ev d b = Inl StartDateInPast \<or>
        createRental ev d b = Inl EndNotAfterStart"
      unfolding createRental_StartDateInPast_iff createRental_EndNotAfterStart_iff by auto
  next
    assume "Rental_findById (rentals d) i = Some oldRental \<and>
      (truthy (req_startDate b') \<or> truthy (req_endDate b')) \<and>
      date_or (req_startDate b') (startDate oldRental) = Some start \<and>
      date_or (req_endDate b') (endDate oldRental) = Some endD \<and> endD \<le> start"
    then show "updateRental ev d i b' = Inl StartDateInPastActive \<or>
        updateRental ev d i b' = Inl EndNotAfterStart"
      using upd by blast
  next
    assume h: "rentalValidation b' \<and> Rental_findById (rentals d) i = Some oldRental \<and>
      req_startDate b' = Some (DateObject (Some start)) \<and>
      req_endDate b' = Some (DateObject (Some endD)) \<and> endD \<le> start"
    then have "updateRental ev d i b' = Inl StartDateInPastActive \<or>
        updateRental ev d i b' = Inl EndNotAfterStart"
      by (intro upd) auto
    with h show "put_rentals ev d i b' = Inl StartDateInPastActive \<or>
        put_rentals ev d i b' = Inl EndNotAfterStart"
      by (simp add: put_rentals_valid)
  qed
qed

text \<open>
  A zero-length reservation, an update whose new end is the stored start, and a PUT
  with an inverted interval.
\<close>

theorem inverted_interval_rejected_witness:
  "createRental ex_env \<lparr>cars = ex_cars, rentals = []\<rparr> (ex_body 1 (jun 5) (jun 5))
     = Inl EndNotAfterStart
   \<and> updateRental ex_env \<lparr>cars = ex_cars, rentals = [ex_rental 1 1 (jun 1) (jun 5) Active]\<rparr> 1
        (no_fields\<lparr>req_endDate := Some (DateObject (Some (jun 1)))\<rparr>)
     = Inl EndNotAfterStart
   \<and> put_rentals ex_env \<lparr>cars = ex_cars, rentals = [ex_rental 1 1 (jun 1) (jun 5) Active]\<rparr> 1
        (ex_body 1 (jun 4) (jun 2))
     = Inl EndNotAfterStart"
proof -
  note t = inverted_interval_rejected[where ev = ex_env]
  have a: "createRental ex_env \<lparr>cars = ex_cars, rentals = []\<rparr> (ex_body 1 (jun 5) (jun 5))
     \<noteq> Inl StartDateInPast"
    by (simp add: engine_defs ex_defs)
  have b: "updateRental ex_env \<lparr>cars = ex_cars, rentals = [ex_rental 1 1 (jun 1) (jun 5) Active]\<rparr> 1
        (no_fields\<lparr>req_endDate := Some (DateObject (Some (jun 1)))\<rparr>) \<noteq> Inl StartDateInPastActive"
    by (simp add: engine_defs ex_defs)
  have c: "put_rentals ex_env \<lparr>cars = ex_cars, rentals = [ex_rental 1 1 (jun 1) (jun 5) Active]\<rparr> 1
        (ex_body 1 (jun 4) (jun 2)) \<noteq> Inl StartDateInPastActive"
    by (simp add: put_rentals_def rentalValidation_def engine_defs ex_defs)
  have t1: "createRental ex_env \<lparr>cars = ex_cars, rentals = []\<rparr> (ex_body 1 (jun 5) (jun 5))
       = Inl StartDateInPast \<or>
     createRental ex_env \<lparr>cars = ex_cars, rentals = []\<rparr> (ex_body 1 (jun 5) (jun 5))
       = Inl EndNotAfterStart"
    using t[where b = "ex_body 1 (jun 5) (jun 5)" and start = "jun 5" and endD = "jun 5"
        and d = "\<lparr>cars = ex_cars, rentals = []\<rparr>", THEN conjunct1]
    by (simp add: ex_body_def)
  have t2: "updateRental ex_env \<lparr>cars = ex_cars, rentals = [ex_rental 1 1 (jun 1) (jun 5) Active]\<rparr> 1
        (no_fields\<lparr>req_endDate := Some (DateObject (Some (jun 1)))\<rparr>) = Inl StartDateInPastActive \<or>
     updateRental ex_env \<lparr>cars = ex_cars, rentals = [ex_rental 1 1 (jun 1) (jun 5) Active]\<rparr> 1
        (no_fields\<lparr>req_endDate := Some (DateObject (Some (jun 1)))\<rparr>) = Inl EndNotAfterStart"
    using t[where d = "\<lparr>cars = ex_cars, rentals = [ex_rental 1 1 (jun 1) (jun 5) Active]\<rparr>"
        and i = 1 and oldRental = "ex_rental 1 1 (jun 1) (jun 5) Active"
        and b' = "no_fields\<lparr>req_endDate := Some (DateObject (Some (jun 1)))\<rparr>"
        and start = "jun 1" and endD = "jun 1", THEN conjunct2, THEN conjunct1]
    by (simp add: no_fields_def ex_rental_def date_or_def)
  have t3: "put_rentals ex_env \<lparr>cars = ex_cars, rentals = [ex_rental 1 1 (jun 1) (jun 5) Active]\<rparr> 1
        (ex_body 1 (jun 4) (jun 2)) = Inl StartDateInPastActive \<or>
     put_rentals ex_env \<lparr>cars = ex_cars, rentals = [ex_rental 1 1 (jun 1) (jun 5) Active]\<rparr> 1
        (ex_body 1 (jun 4) (jun 2)) = Inl EndNotAfterStart"
    using t[where d = "\<lparr>cars = ex_cars, rentals = [ex_rental 1 1 (jun 1) (jun 5) Active]\<rparr>"
        and i = 1 and oldRental = "ex_rental 1 1 (jun 1) (jun 5) Active"
        and b' = "ex_body 1 (jun 4) (jun 2)"
        and start = "jun 4" and endD = "jun 2", THEN conjunct2, THEN conjunct2]
    by (simp add: ex_body_def ex_rental_def rentalValidation_def jun_def msPerDay_def)
  from a b c t1 t2 t3 show ?thesis by blast
qed

section \<open>Start dates in the past\<close>

text \<open>
  Claim C8. A \<^verbatim>\<open>createRental\<close> request whose start date is on a calendar day before
  the day of the server's clock never writes a booking, and fails with
  \<open>StartDateInPast\<close> when its other fields are well-formed. On amendment the check
  applies while the booking is active: an \<^verbatim>\<open>updateRental\<close> request that runs the date
  block (a date of the body is truthy, as in every PUT that the validation lets
  through) fails with \<open>StartDateInPastActive\<close> when the effective start date is on a
  day before today. For a booking that is not active the result does not depend on
  the clock at all.
\<close>

theorem past_start_date_rejected:
  "(new_Date (req_startDate b) = Some start \<and> dateOnly ev start < today ev
    \<longrightarrow> isl (createRental ev d b) \<and>
        (req_car b \<noteq> None \<and> req_client b \<noteq> None \<and> req_employee b \<noteq> None \<and>
         (\<forall>cost. req_totalCost b = Some cost \<longrightarrow> 0 \<le> cost) \<and>
         new_Date (req_endDate b) \<noteq> None
         \<longrightarrow> createRental ev d b = Inl StartDateInPast))
   \<and>
   (Rental_findById (rentals d) i = Some oldRental \<and> status oldRental = Active \<and>
    (truthy (req_startDate b') \<or> truthy (req_endDate b')) \<and>
    date_or (req_startDate b') (startDate oldRental) = Some start \<and>
    date_or (req_endDate b') (endDate oldRental) \<noteq> None \<and>
    dateOnly ev start < today ev
    \<longrightarrow> updateRental ev d i b' = Inl StartDateInPastActive)
   \<and>
   (rentalValidation b' \<and> Rental_findById (rentals d) i = Some oldRental \<and>
    status oldRental = Active \<and>
    req_startDate b' = Some (DateObject (Some start)) \<and>
    req_endDate b' = Some (DateObject (Some endD)) \<and>
    dateOnly ev start < today ev
    \<longrightarrow> put_rentals ev d i b' = Inl StartDateInPastActive)
   \<and>
   (Rental_findById (rentals d) i = Some oldRental \<and> status oldRental \<noteq> Active
    \<longrightarrow> updateRental ev' d i b' = updateRental ev d i b' \<and>
        put_rentals ev' d i b' = put_rentals ev d i b')"
proof -
  have upd: "updateRental ev d i b' = Inl StartDateInPastActive"
    if h: "Rental_findById (rentals d) i = Some oldRental" "status oldRental = Active"
      "truthy (req_startDate b') \<or> truthy (req_endDate b')"
      "date_or (req_startDate b') (startDate oldRental) = Some start"
      "date_or (req_endDate b') (endDate oldRental) \<noteq> None"
      "dateOnly ev start < today ev"
  proof -
    from h have "updateRental_dates ev d i oldRental b' = Some StartDateInPastActive"
      unfolding updateRental_dates_StartDateInPastActive_iff by blast
    with h(1) show ?thesis using updateRental_dates_error by blast
  qed
  show ?thesis
  proof (intro conjI impI)
    assume h: "new_Date (req_startDate b) = Some start \<and> dateOnly ev start < today ev"
    then have "isl (createRental_checks ev d b)"
      by (auto simp: createRental_checks_def split: option.splits)
    then show "isl (createRental ev d b)" by (rule createRental_checks_isl)
    assume "req_car b \<noteq> None \<and> req_client b \<noteq> None \<and> req_employee b \<noteq> None \<and>
         (\<forall>cost. req_totalCost b = Some cost \<longrightarrow> 0 \<le> cost) \<and>
         new_Date (req_endDate b) \<noteq> None"
    with h show "createRental ev d b = Inl StartDateInPast"
      unfolding createRental_StartDateInPast_iff by auto
  next
    assume "Rental_findById (rentals d) i = Some oldRental \<and> status oldRental = Active \<and>
      (truthy (req_startDate b') \<or> truthy (req_endDate b')) \<and>
      date_or (req_startDate b') (startDate oldRental) = Some start \<and>
      date_or (req_endDate b') (endDate oldRental) \<noteq> None \<and>
      dateOnly ev start < today ev"
    then show "updateRental ev d i b' = Inl StartDateInPastActive"
      using upd by blast
  next
    assume h: "rentalValidation b' \<and> Rental_findById (rentals d) i = Some oldRental \<and>
      status oldRental = Active \<and>
      req_startDate b' = Some (DateObject (Some start)) \<and>
      req_endDate b' = Some (DateObject (Some endD)) \<and>
      dateOnly ev start < today ev"
    then have "updateRental ev d i b' = Inl StartDateInPastActive"
      by (intro upd) auto
    with h show "put_rentals ev d i b' = Inl StartDateInPastActive"
      by (simp add: put_rentals_valid)
  next
    assume "Rental_findById (rentals d) i = Some oldRental \<and> status oldRental \<noteq> Active"
    then show u: "updateRental ev' d i b' = updateRental ev d i b'"
      by (simp add: updateRental_def updateRental_dates_not_active[of oldRental ev' d i b' ev])
    then show "put_rentals ev' d i b' = put_rentals ev d i b'"
      by (simp add: put_rentals_def)
  qed
qed

text \<open>
  With the clock at 3 June: a reservation from 2 June, a change of the end date of
  an active booking that started on 1 June, the same change as a PUT, and the same
  PUT on a completed booking.
\<close>

theorem past_start_date_rejected_witness:
  "createRental (ex_env\<lparr>now := jun 3\<rparr>) \<lparr>cars = ex_cars, rentals = []\<rparr> (ex_body 1 (jun 2) (jun 5))
     = Inl StartDateInPast
   \<and> updateRental (ex_env\<lparr>now := jun 3\<rparr>)
        \<lparr>cars = ex_cars, rentals = [ex_rental 1 1 (jun 1) (jun 5) Active]\<rparr> 1
        (no_fields\<lparr>req_endDate := Some (DateObject (Some (jun 7)))\<rparr>)
     = Inl StartDateInPastActive
   \<and> put_rentals (ex_env\<lparr>now := jun 3\<rparr>)
        \<lparr>cars = ex_cars, rentals = [ex_rental 1 1 (jun 1) (jun 5) Active]\<rparr> 1
        (ex_body 1 (jun 1) (jun 7))
     = Inl StartDateInPastActive
   \<and> put_rentals (ex_env\<lparr>now := jun 3\<rparr>)
        \<lparr>cars = ex_cars, rentals = [ex_rental 1 1 (jun 1) (jun 5) Completed]\<rparr> 1
        (ex_body 1 (jun 1) (jun 7))
     = Inr \<lparr>cars = ex_cars, rentals = [ex_rental 1 1 (jun 1) (jun 7) Completed]\<rparr>"
proof -
  note t = past_start_date_rejected[where ev = "ex_env\<lparr>now := jun 3\<rparr>"]
  have c: "put_rentals ex_env
        \<lparr>cars = ex_cars, rentals = [ex_rental 1 1 (jun 1) (jun 5) Completed]\<rparr> 1
        (ex_body 1 (jun 1) (jun 7))
     = Inr \<lparr>cars = ex_cars, rentals = [ex_rental 1 1 (jun 1) (jun 7) Completed]\<rparr>"
    by (simp add: put_rentals_def rentalValidation_def engine_defs ex_defs)
  have t1: "createRental (ex_env\<lparr>now := jun 3\<rparr>) \<lparr>cars = ex_cars, rentals = []\<rparr>
       (ex_body 1 (jun 2) (jun 5)) = Inl StartDateInPast"
    using t[where b = "ex_body 1 (jun 2) (jun 5)" and start = "jun 2"
        and d = "\<lparr>cars = ex_cars, rentals = []\<rparr>", THEN conjunct1]
    by (simp add: ex_defs dateOnly_def today_def)
  have t2: "updateRental (ex_env\<lparr>now := jun 3\<rparr>)
        \<lparr>cars = ex_cars, rentals = [ex_rental 1 1 (jun 1) (jun 5) Active]\<rparr> 1
        (no_fields\<lparr>req_endDate := Some (DateObject (Some (jun 7)))\<rparr>)
     = Inl StartDateInPastActive"
    using t[where d = "\<lparr>cars = ex_cars, rentals = [ex_rental 1 1 (jun 1) (jun 5) Active]\<rparr>"
        and i = 1 and oldRental = "ex_rental 1 1 (jun 1) (jun 5) Active"
        and b' = "no_fields\<lparr>req_endDate := Some (DateObject (Some (jun 7)))\<rparr>"
        and start = "jun 1", THEN conjunct2, THEN conjunct1]
    by (simp add: ex_defs dateOnly_def today_def date_or_def)
  have t3: "put_rentals (ex_env\<lparr>now := jun 3\<rparr>)
        \<lparr>cars = ex_cars, rentals = [ex_rental 1 1 (jun 1) (jun 5) Active]\<rparr> 1
        (ex_body 1 (jun 1) (jun 7))
     = Inl StartDateInPastActive"
    using t[where d = "\<lparr>cars = ex_cars, rentals = [ex_rental 1 1 (jun 1) (jun 5) Active]\<rparr>"
        and i = 1 and oldRental = "ex_rental 1 1 (jun 1) (jun 5) Active"
        and b' = "ex_body 1 (jun 1) (jun 7)"
        and start = "jun 1" and endD = "jun 7", THEN conjunct2, THEN conjunct2, THEN conjunct1]
    by (simp add: ex_defs dateOnly_def today_def rentalValidation_def)
  have t4: "put_rentals (ex_env\<lparr>now := jun 3\<rparr>)
        \<lparr>cars = ex_cars, rentals = [ex_rental 1 1 (jun 1) (jun 5) Completed]\<rparr> 1
        (ex_body 1 (jun 1) (jun 7))
     = put_rentals ex_env
        \<lparr>cars = ex_cars, rentals = [ex_rental 1 1 (jun 1) (jun 5) Completed]\<rparr> 1
        (ex_body 1 (jun 1) (jun 7))"
    using past_start_date_rejected[where ev = ex_env and ev' = "ex_env\<lparr>now := jun 3\<rparr>"
        and d = "\<lparr>cars = ex_cars, rentals = [ex_rental 1 1 (jun 1) (jun 5) Completed]\<rparr>"
        and i = 1 and oldRental = "ex_rental 1 1 (jun 1) (jun 5) Completed"
        and b' = "ex_body 1 (jun 1) (jun 7)",
        THEN conjunct2, THEN conjunct2, THEN conjunct2]
    by (simp add: ex_rental_def)
  from c t1 t2 t3 t4 show ?thesis by simp
qed

section \<open>Bookings that are not active\<close>

text \<open>
  Claim C9, as amended. The checks of \<^verbatim>\<open>createRental\<close> and the date block of
  \<^verbatim>\<open>updateRental\<close> give the same answer when every booking that is not active is
  taken out of the database. After an update has set a booking to a status other
  than active, a reservation for its car and its interval is stored as a new active
  booking, provided that no other active booking of that car satisfies the
  closed-interval query (none overlaps or touches the interval), that the start day
  is not before today and that the car is not in maintenance.
\<close>

theorem inactive_bookings_ignored:
  "createRental_checks ev (d\<lparr>rentals := filter (\<lambda>r. status r = Active) (rentals d)\<rparr>) b
     = createRental_checks ev d b
   \<and> updateRental_dates ev (d\<lparr>rentals := filter (\<lambda>r. status r = Active) (rentals d)\<rparr>)
        i oldRental b
     = updateRental_dates ev d i oldRental b
   \<and> (updateRental ev d i b = Inr d' \<and> req_status b = Some st \<and> st \<noteq> Active \<and>
      Rental_findById (rentals d) i = Some oldRental \<and> distinct (map rid (rentals d)) \<and>
      r' = set_fields b oldRental \<and> startDate r' < endDate r' \<and>
      (\<forall>r \<in> set (rentals d). rid r \<noteq> i \<and> car r = car r' \<and> status r = Active
          \<longrightarrow> \<not> or_clauses (startDate r') (endDate r') r) \<and>
      req_car c = Some (car r') \<and> req_client c = Some cl \<and> req_employee c = Some em \<and>
      req_totalCost c = Some cost \<and> 0 \<le> cost \<and> req_status c = None \<and>
      req_startDate c = Some (DateObject (Some (startDate r'))) \<and>
      req_endDate c = Some (DateObject (Some (endDate r'))) \<and>
      \<not> dateOnly ev' (startDate r') < today ev' \<and>
      Car_findById (cars d') (car r') = Some cd \<and> car_status cd \<noteq> Maintenance
      \<longrightarrow> createRental ev' d' c =
            Inr (d'\<lparr>rentals := rentals d' @
                   [\<lparr>rid = new_ObjectId (rentals d'), car = car r', client = cl,
                     employee = em, startDate = startDate r', endDate = endDate r',
                     totalCost = cost, status = Active\<rparr>]\<rparr>))"
proof (intro conjI impI)
  show "createRental_checks ev (d\<lparr>rentals := filter (\<lambda>r. status r = Active) (rentals d)\<rparr>) b
     = createRental_checks ev d b"
    by (auto simp: createRental_checks_def overlappingRentals_active_only
             split: option.splits prod.splits)
  show "updateRental_dates ev (d\<lparr>rentals := filter (\<lambda>r. status r = Active) (rentals d)\<rparr>)
        i oldRental b
     = updateRental_dates ev d i oldRental b"
    by (auto simp: updateRental_dates_def overlappingRentalsExcept_active_only
             split: option.splits prod.splits)
next
  assume h: "updateRental ev d i b = Inr d' \<and> req_status b = Some st \<and> st \<noteq> Active \<and>
      Rental_findById (rentals d) i = Some oldRental \<and> distinct (map rid (rentals d)) \<and>
      r' = set_fields b oldRental \<and> startDate r' < endDate r' \<and>
      (\<forall>r \<in> set (rentals d). rid r \<noteq> i \<and> car r = car r' \<and> status r = Active
          \<longrightarrow> \<not> or_clauses (startDate r') (endDate r') r) \<and>
      req_car c = Some (car r') \<and> req_client c = Some cl \<and> req_employee c = Some em \<and>
      req_totalCost c = Some cost \<and> 0 \<le> cost \<and> req_status c = None \<and>
      req_startDate c = Some (DateObject (Some (startDate r'))) \<and>
      req_endDate c = Some (DateObject (Some (endDate r'))) \<and>
      \<not> dateOnly ev' (startDate r') < today ev' \<and>
      Car_findById (cars d') (car r') = Some cd \<and> car_status cd \<noteq> Maintenance"
  then have u: "updateRental ev d i b = Inr d'" and st: "req_status b = Some st" "st \<noteq> Active"
    and old: "Rental_findById (rentals d) i = Some oldRental"
    and dist: "distinct (map rid (rentals d))"
    and r': "r' = set_fields b oldRental" and lt: "startDate r' < endDate r'"
    and others: "\<forall>r \<in> set (rentals d). rid r \<noteq> i \<and> car r = car r' \<and> status r = Active
          \<longrightarrow> \<not> or_clauses (startDate r') (endDate r') r"
    and c: "req_car c = Some (car r')" "req_client c = Some cl" "req_employee c = Some em"
      "req_totalCost c = Some cost" "0 \<le> cost" "req_status c = None"
      "req_startDate c = Some (DateObject (Some (startDate r')))"
      "req_endDate c = Some (DateObject (Some (endDate r')))"
    and np: "\<not> dateOnly ev' (startDate r') < today ev'"
    and cd: "Car_findById (cars d') (car r') = Some cd" "car_status cd \<noteq> Maintenance"
    by auto
  from u have d': "rentals d' = update_first i (set_fields b) (rentals d)"
    by (auto elim!: updateRental_Inr)
  from st r' have st': "status r' \<noteq> Active" by (simp add: set_fields_def)
  have "\<forall>x \<in> set (rentals d').
          \<not> (car x = car r' \<and> status x = Active \<and> or_clauses (startDate r') (endDate r') x)"
  proof
    fix x assume "x \<in> set (rentals d')"
    with d' dist old r' have "x = r' \<or> (x \<in> set (rentals d) \<and> rid x \<noteq> i)"
      using update_first_set_distinct[of "rentals d" i oldRental x "set_fields b"] by simp
    with st' others
    show "\<not> (car x = car r' \<and> status x = Active \<and> or_clauses (startDate r') (endDate r') x)"
      by blast
  qed
  then have scan: "overlappingRentals (rentals d') (car r') (startDate r') (endDate r') = []"
    by (simp add: overlappingRentals_empty)
  have chk: "createRental_checks ev' d' c = Inr ()"
    using c lt np cd scan by (simp add: createRental_checks_def)
  have cr: "Rental_create d' c =
            Inr (d'\<lparr>rentals := rentals d' @
                   [\<lparr>rid = new_ObjectId (rentals d'), car = car r', client = cl,
                     employee = em, startDate = startDate r', endDate = endDate r',
                     totalCost = cost, status = Active\<rparr>]\<rparr>)"
    using c lt by (simp add: Rental_create_def)
  from chk cr show "createRental ev' d' c =
            Inr (d'\<lparr>rentals := rentals d' @
                   [\<lparr>rid = new_ObjectId (rentals d'), car = car r', client = cl,
                     employee = em, startDate = startDate r', endDate = endDate r',
                     totalCost = cost, status = Active\<rparr>]\<rparr>)"
    by (simp add: createRental_def)
qed

text \<open>
  Claim C9 as stated fails, for the absence of other active overlaps is not enough.
  Booking 1 of car 1 (1 to 5 June) is cancelled and the days from 5 to 8 June are
  reserved: that booking does not overlap booking 1, and yet the reservation of 1 to
  5 June is refused with \<open>CarAlreadyBooked\<close>. And when car 1 has gone into maintenance,
  the reservation that follows the cancellation of booking 1 is refused with
  \<open>CarInMaintenance\<close>.
\<close>

theorem freed_interval_not_rebookable:
  "post_rentals ex_env \<lparr>cars = ex_cars, rentals = []\<rparr> (ex_body 1 (jun 1) (jun 5))
     = Inr \<lparr>cars = ex_cars, rentals = [ex_rental 1 1 (jun 1) (jun 5) Active]\<rparr>
   \<and> put_rentals ex_env \<lparr>cars = ex_cars, rentals = [ex_rental 1 1 (jun 1) (jun 5) Active]\<rparr> 1
        ((ex_body 1 (jun 1) (jun 5))\<lparr>req_status := Some Cancelled\<rparr>)
     = Inr \<lparr>cars = ex_cars, rentals = [ex_rental 1 1 (jun 1) (jun 5) Cancelled]\<rparr>
   \<and> post_rentals ex_env \<lparr>cars = ex_cars, rentals = [ex_rental 1 1 (jun 1) (jun 5) Cancelled]\<rparr>
        (ex_body 1 (jun 5) (jun 8))
     = Inr \<lparr>cars = ex_cars, rentals = [ex_rental 1 1 (jun 1) (jun 5) Cancelled,
                                       ex_rental 2 1 (jun 5) (jun 8) Active]\<rparr>
   \<and> \<not> overlaps (ex_rental 1 1 (jun 1) (jun 5) Cancelled) (ex_rental 2 1 (jun 5) (jun 8) Active)
   \<and> post_rentals ex_env
        \<lparr>cars = ex_cars, rentals = [ex_rental 1 1 (jun 1) (jun 5) Cancelled,
                                    ex_rental 2 1 (jun 5) (jun 8) Active]\<rparr>
        (ex_body 1 (jun 1) (jun 5))
     = Inl CarAlreadyBooked
   \<and> put_rentals ex_env
        \<lparr>cars = [\<lparr>car_id = 1, car_status = Maintenance\<rparr>],
         rentals = [ex_rental 1 1 (jun 1) (jun 5) Active]\<rparr> 1
        ((ex_body 1 (jun 1) (jun 5))\<lparr>req_status := Some Cancelled\<rparr>)
     = Inr \<lparr>cars = [\<lparr>car_id = 1, car_status = Maintenance\<rparr>],
            rentals = [ex_rental 1 1 (jun 1) (jun 5) Cancelled]\<rparr>
   \<and> post_rentals ex_env
        \<lparr>cars = [\<lparr>car_id = 1, car_status = Maintenance\<rparr>],
         rentals = [ex_rental 1 1 (jun 1) (jun 5) Cancelled]\<rparr>
        (ex_body 1 (jun 1) (jun 5))
     = Inl CarInMaintenance"
  by (simp add: post_rentals_def put_rentals_def rentalValidation_def engine_defs ex_defs
        overlaps_def)

text \<open>The booking of the example is cancelled and its days are reserved again.\<close>

theorem inactive_bookings_ignored_witness:
  "updateRental ex_env \<lparr>cars = ex_cars, rentals = [ex_rental 1 1 (jun 1) (jun 5) Active]\<rparr> 1
       ((ex_body 1 (jun 1) (jun 5))\<lparr>req_status := Some Cancelled\<rparr>)
     = Inr \<lparr>cars = ex_cars, rentals = [ex_rental 1 1 (jun 1) (jun 5) Cancelled]\<rparr>
   \<and> createRental ex_env
        \<lparr>cars = ex_cars, rentals = [ex_rental 1 1 (jun 1) (jun 5) Cancelled]\<rparr>
        (ex_body 1 (jun 1) (jun 5))
     = Inr \<lparr>cars = ex_cars, rentals = [ex_rental 1 1 (jun 1) (jun 5) Cancelled,
                                       ex_rental 2 1 (jun 1) (jun 5) Active]\<rparr>"
proof -
  have u: "updateRental ex_env \<lparr>cars = ex_cars, rentals = [ex_rental 1 1 (jun 1) (jun 5) Active]\<rparr> 1
       ((ex_body 1 (jun 1) (jun 5))\<lparr>req_status := Some Cancelled\<rparr>)
     = Inr \<lparr>cars = ex_cars, rentals = [ex_rental 1 1 (jun 1) (jun 5) Cancelled]\<rparr>"
    by (simp add: engine_defs ex_defs)
  have p: "req_status ((ex_body 1 (jun 1) (jun 5))\<lparr>req_status := Some Cancelled\<rparr>) = Some Cancelled
      \<and> Cancelled \<noteq> Active
      \<and> Rental_findById (rentals \<lparr>cars = ex_cars, rentals = [ex_rental 1 1 (jun 1) (jun 5) Active]\<rparr>) 1
          = Some (ex_rental 1 1 (jun 1) (jun 5) Active)
      \<and> distinct (map rid (rentals \<lparr>cars = ex_cars, rentals = [ex_rental 1 1 (jun 1) (jun 5) Active]\<rparr>))
      \<and> ex_rental 1 1 (jun 1) (jun 5) Cancelled
          = set_fields ((ex_body 1 (jun 1) (jun 5))\<lparr>req_status := Some Cancelled\<rparr>)
              (ex_rental 1 1 (jun 1) (jun 5) Active)"
    by (simp add: set_fields_def ex_defs)
  have q: "startDate (ex_rental 1 1 (jun 1) (jun 5) Cancelled) < endDate (ex_rental 1 1 (jun 1) (jun 5) Cancelled)
      \<and> (\<forall>r \<in> set (rentals \<lparr>cars = ex_cars, rentals = [ex_rental 1 1 (jun 1) (jun 5) Active]\<rparr>).
            rid r \<noteq> 1 \<and> car r = car (ex_rental 1 1 (jun 1) (jun 5) Cancelled) \<and> status r = Active
          \<longrightarrow> \<not> or_clauses (startDate (ex_rental 1 1 (jun 1) (jun 5) Cancelled))
                 (endDate (ex_rental 1 1 (jun 1) (jun 5) Cancelled)) r)"
    by (simp add: ex_defs)
  have c: "req_car (ex_body 1 (jun 1) (jun 5)) = Some (car (ex_rental 1 1 (jun 1) (jun 5) Cancelled))
      \<and> req_client (ex_body 1 (jun 1) (jun 5)) = Some 1
      \<and> req_employee (ex_body 1 (jun 1) (jun 5)) = Some 1
      \<and> req_totalCost (ex_body 1 (jun 1) (jun 5)) = Some 100 \<and> (0::int) \<le> 100
      \<and> req_status (ex_body 1 (jun 1) (jun 5)) = None
      \<and> req_startDate (ex_body 1 (jun 1) (jun 5))
          = Some (DateObject (Some (startDate (ex_rental 1 1 (jun 1) (jun 5) Cancelled))))
      \<and> req_endDate (ex_body 1 (jun 1) (jun 5))
          = Some (DateObject (Some (endDate (ex_rental 1 1 (jun 1) (jun 5) Cancelled))))"
    by (simp add: ex_defs)
  have e: "\<not> dateOnly ex_env (startDate (ex_rental 1 1 (jun 1) (jun 5) Cancelled)) < today ex_env
      \<and> Car_findById (cars \<lparr>cars = ex_cars, rentals = [ex_rental 1 1 (jun 1) (jun 5) Cancelled]\<rparr>)
            (car (ex_rental 1 1 (jun 1) (jun 5) Cancelled))
          = Some \<lparr>car_id = 1, car_status = Available\<rparr>
      \<and> car_status \<lparr>car_id = 1, car_status = Available\<rparr> \<noteq> Maintenance"
    by (simp add: ex_defs dateOnly_def today_def)
  have "createRental ex_env \<lparr>cars = ex_cars, rentals = [ex_rental 1 1 (jun 1) (jun 5) Cancelled]\<rparr>
        (ex_body 1 (jun 1) (jun 5))
     = Inr (\<lparr>cars = ex_cars, rentals = [ex_rental 1 1 (jun 1) (jun 5) Cancelled]\<rparr>
          \<lparr>rentals := rentals \<lparr>cars = ex_cars, rentals = [ex_rental 1 1 (jun 1) (jun 5) Cancelled]\<rparr> @
             [\<lparr>rid = new_ObjectId (rentals \<lparr>cars = ex_cars, rentals = [ex_rental 1 1 (jun 1) (jun 5) Cancelled]\<rparr>),
               car = car (ex_rental 1 1 (jun 1) (jun 5) Cancelled), client = 1, employee = 1,
               startDate = startDate (ex_rental 1 1 (jun 1) (jun 5) Cancelled),
               endDate = endDate (ex_rental 1 1 (jun 1) (jun 5) Cancelled),
               totalCost = 100, status = Active\<rparr>]\<rparr>)"
    using inactive_bookings_ignored[where ev = ex_env and ev' = ex_env
      and d = "\<lparr>cars = ex_cars, rentals = [ex_rental 1 1 (jun 1) (jun 5) Active]\<rparr>"
      and i = 1 and b = "(ex_body 1 (jun 1) (jun 5))\<lparr>req_status := Some Cancelled\<rparr>"
      and d' = "\<lparr>cars = ex_cars, rentals = [ex_rental 1 1 (jun 1) (jun 5) Cancelled]\<rparr>"
      and st = Cancelled and oldRental = "ex_rental 1 1 (jun 1) (jun 5) Active"
      and r' = "ex_rental 1 1 (jun 1) (jun 5) Cancelled"
      and c = "ex_body 1 (jun 1) (jun 5)" and cl = 1 and em = 1 and cost = 100
      and cd = "\<lparr>car_id = 1, car_status = Available\<rparr>", THEN conjunct2, THEN conjunct2]
      u p q c e
    by blast
  then have "createRental ex_env
        \<lparr>cars = ex_cars, rentals = [ex_rental 1 1 (jun 1) (jun 5) Cancelled]\<rparr>
        (ex_body 1 (jun 1) (jun 5))
     = Inr \<lparr>cars = ex_cars, rentals = [ex_rental 1 1 (jun 1) (jun 5) Cancelled,
                                       ex_rental 2 1 (jun 1) (jun 5) Active]\<rparr>"
    by (simp add: ex_rental_def new_ObjectId_def)
  with u show ?thesis by blast
qed

section \<open>The three clauses of the conflict query\<close>

text \<open>
  Claim C10. For a stored interval with \<^verbatim>\<open>startDate <= endDate\<close> and a candidate with
  \<^verbatim>\<open>start <= end\<close>, the disjunction of the three clauses of both conflict queries is
  equivalent to the closed-interval test
  \<^verbatim>\<open>existing.startDate <= end AND existing.endDate >= start\<close>.
\<close>

theorem or_clauses_closed_overlap:
  "startDate r \<le> endDate r \<Longrightarrow> start \<le> endD \<Longrightarrow>
   or_clauses start endD r = closed_overlap start endD r"
  unfolding or_clauses_def closed_overlap_def by linarith

text \<open>The stored booking of the example against the candidate that starts on its last day.\<close>

theorem or_clauses_closed_overlap_witness:
  "startDate (ex_rental 1 1 (jun 1) (jun 5) Active) \<le> endDate (ex_rental 1 1 (jun 1) (jun 5) Active)
   \<and> jun 5 \<le> jun 8
   \<and> or_clauses (jun 5) (jun 8) (ex_rental 1 1 (jun 1) (jun 5) Active)
   \<and> closed_overlap (jun 5) (jun 8) (ex_rental 1 1 (jun 1) (jun 5) Active)"
proof -
  have a: "startDate (ex_rental 1 1 (jun 1) (jun 5) Active) \<le> endDate (ex_rental 1 1 (jun 1) (jun 5) Active)"
    by (simp add: ex_defs)
  have b: "jun 5 \<le> jun 8" by (simp add: ex_defs)
  have c: "closed_overlap (jun 5) (jun 8) (ex_rental 1 1 (jun 1) (jun 5) Active)"
    by (simp add: closed_overlap_def ex_defs)
  from a b c or_clauses_closed_overlap[OF a b] show ?thesis by simp
qed

end
